theory Spec2Isabelle
  imports Complex_Main "HOL-Library.Product_Lexorder" "HOL-Library.List_Lexorder"
    "HOL-Library.Char_ord"
begin

section \<open>Data model\<close>

text \<open>
  The analysis pipeline of \<^verbatim>\<open>step_by_step_analytics.py\<close> and the time-series
  preparation of \<^verbatim>\<open>visualizations.py\<close> work on a pandas DataFrame. A frame is
  modelled column-wise, as pandas stores it: an ordered list of labelled columns, each with
  a dtype and its cells. Column labels are unique, as the query layer produces them.

  A cell is a missing value (\<open>None\<close>, \<open>NaN\<close>, \<open>NaT\<close>: everything
  \<open>isnull()\<close> reports), a finite number, a string, a timestamp or a monthly period.
  A timestamp is the triple (year, month, offset inside the month); triples are ordered
  lexicographically, which is the chronological order. Numbers are real numbers: the
  arithmetic of the model is exact where float64 rounds, and infinite cell values are not
  represented. The correlation matrix of step 3, where rounding decides which pairs are
  listed, is not computed by the model: it is taken from the library as a parameter.
\<close>

type_synonym timestamp = "int \<times> nat \<times> nat"

type_synonym period = "int \<times> nat"

datatype cell = Null | Num real | Str string | Ts timestamp | Per period

datatype dtype = Int64 | Float64 | Object | Datetime64 | PeriodM

record column =
  name :: string
  dtype :: dtype
  cells :: "cell list"

type_synonym dataframe = "column list"

datatype py_error = IndexError | KeyError | ZeroDivisionError | ValueError | TypeError

text \<open>
  The result of a numpy float64 division: numpy does not raise on a zero divisor, it
  returns an infinity or \<open>NaN\<close>, and every comparison with \<open>NaN\<close> is false.
\<close>

datatype npfloat = Fin real | PosInf | NegInf | NaN

definition np_inf :: "real \<Rightarrow> npfloat" where
  "np_inf s = (if 0 < s then PosInf else if s < 0 then NegInf else NaN)"

fun np_sign :: "npfloat \<Rightarrow> real" where
  "np_sign (Fin a) = sgn a"
| "np_sign PosInf = 1"
| "np_sign NegInf = - 1"
| "np_sign NaN = 0"

fun np_add :: "npfloat \<Rightarrow> npfloat \<Rightarrow> npfloat" where
  "np_add NaN y = NaN"
| "np_add x NaN = NaN"
| "np_add (Fin a) (Fin b) = Fin (a + b)"
| "np_add PosInf NegInf = NaN"
| "np_add NegInf PosInf = NaN"
| "np_add PosInf y = PosInf"
| "np_add x PosInf = PosInf"
| "np_add NegInf y = NegInf"
| "np_add x NegInf = NegInf"

fun np_mul :: "npfloat \<Rightarrow> npfloat \<Rightarrow> npfloat" where
  "np_mul NaN y = NaN"
| "np_mul x NaN = NaN"
| "np_mul (Fin a) (Fin b) = Fin (a * b)"
| "np_mul x y = np_inf (np_sign x * np_sign y)"

fun np_div :: "npfloat \<Rightarrow> npfloat \<Rightarrow> npfloat" where
  "np_div NaN y = NaN"
| "np_div x NaN = NaN"
| "np_div (Fin a) (Fin b) = (if b \<noteq> 0 then Fin (a / b) else np_inf a)"
| "np_div (Fin a) y = Fin 0"
| "np_div x (Fin b) = np_inf (np_sign x * (if 0 \<le> b then 1 else - 1))"
| "np_div x y = NaN"

fun np_less :: "npfloat \<Rightarrow> npfloat \<Rightarrow> bool" where
  "np_less NaN y = False"
| "np_less x NaN = False"
| "np_less (Fin a) (Fin b) = (a < b)"
| "np_less x NegInf = False"
| "np_less NegInf y = True"
| "np_less PosInf y = False"
| "np_less x PosInf = True"

definition np_le :: "npfloat \<Rightarrow> npfloat \<Rightarrow> bool" where
  "np_le x y = (np_less x y \<or> (x = y \<and> x \<noteq> NaN))"

section \<open>Strings\<close>

definition lower_char :: "char \<Rightarrow> char" where
  "lower_char c = (let n = (of_char c :: nat) in
     if 65 \<le> n \<and> n \<le> 90
     then (case c of Char b0 b1 b2 b3 b4 b5 b6 b7 \<Rightarrow> Char b0 b1 b2 b3 b4 True b6 b7)
     else c)"

definition lower :: "string \<Rightarrow> string" where
  "lower s = map lower_char s"

text \<open>\<open>str_contains s w\<close> is Python's \<open>w in s\<close> on strings.\<close>

primrec str_contains :: "string \<Rightarrow> string \<Rightarrow> bool" where
  "str_contains [] w = (w = [])"
| "str_contains (c # cs) w = (take (length w) (c # cs) = w \<or> str_contains cs w)"

section \<open>Frame primitives\<close>

definition len :: "dataframe \<Rightarrow> nat" where
  "len data = (case data of [] \<Rightarrow> 0 | c # cs \<Rightarrow> length (cells c))"

definition columns :: "dataframe \<Rightarrow> string list" where
  "columns data = map name data"

definition isnull :: "cell \<Rightarrow> bool" where
  "isnull v = (v = Null)"

definition null_count :: "column \<Rightarrow> nat" where
  "null_count c = length (filter isnull (cells c))"

text \<open>\<open>data.isnull().sum().sum()\<close>\<close>

definition null_cells :: "dataframe \<Rightarrow> nat" where
  "null_cells data = sum_list (map null_count data)"

definition row :: "dataframe \<Rightarrow> nat \<Rightarrow> cell list" where
  "row data i = map (\<lambda>c. cells c ! i) data"

definition rows :: "dataframe \<Rightarrow> cell list list" where
  "rows data = map (row data) [0..<len data]"

text \<open>
  \<open>data.duplicated()\<close> with its default \<open>keep='first'\<close>: a row is flagged
  when an earlier row has the same value in every column (missing values compare equal).
\<close>

fun duplicated_from :: "cell list list \<Rightarrow> cell list list \<Rightarrow> bool list" where
  "duplicated_from seen [] = []"
| "duplicated_from seen (r # rs) = (r \<in> set seen) # duplicated_from (r # seen) rs"

definition duplicated :: "dataframe \<Rightarrow> bool list" where
  "duplicated data = duplicated_from [] (rows data)"

text \<open>\<open>data.dropna()\<close>: the rows without a missing value.\<close>

definition dropna_rows :: "dataframe \<Rightarrow> cell list list" where
  "dropna_rows data = filter (\<lambda>r. \<not> list_ex isnull r) (rows data)"

fun is_number :: "dtype \<Rightarrow> bool" where
  "is_number Int64 = True"
| "is_number Float64 = True"
| "is_number d = False"

text \<open>
  \<open>data.select_dtypes(include=[np.number]).columns\<close>. The source keeps the labels and
  reads \<open>data[col]\<close> back; labels being unique, the model keeps the columns.
\<close>

definition numeric_cols :: "dataframe \<Rightarrow> column list" where
  "numeric_cols data = filter (\<lambda>c. is_number (dtype c)) data"

text \<open>
  \<open>pd.to_datetime\<close> on a series is a parameter of the model: it returns
  \<open>None\<close> where the library raises, and otherwise the parsed series, with
  \<open>None\<close> for \<open>NaT\<close>.
\<close>

type_synonym to_datetime = "cell list \<Rightarrow> timestamp option list option"

text \<open>
  The loop of steps 4 and 6 that collects \<open>date_cols\<close>: a column is kept when
  \<open>pd.to_datetime(data[col].head())\<close> does not raise (the bare \<open>except\<close>
  swallows every failure). \<open>head()\<close> is the first five rows.
\<close>

definition head :: "cell list \<Rightarrow> cell list" where
  "head xs = take 5 xs"

definition date_cols :: "to_datetime \<Rightarrow> dataframe \<Rightarrow> column list" where
  "date_cols to_dt data = filter (\<lambda>c. to_dt (head (cells c)) \<noteq> None) data"

text \<open>
  A call that may raise returns a sum: \<open>Inl\<close> the exception, \<open>Inr\<close> the value;
  \<open>bind_err\<close> runs the rest of a function after a call that did not raise.
\<close>

definition bind_err :: "'e + 'a \<Rightarrow> ('a \<Rightarrow> 'e + 'b) \<Rightarrow> 'e + 'b" where
  "bind_err m f = (case m of Inl e \<Rightarrow> Inl e | Inr x \<Rightarrow> f x)"

text \<open>\<open>data[label]\<close>: the column of that label, \<open>KeyError\<close> when there is none.\<close>

definition getitem :: "dataframe \<Rightarrow> string \<Rightarrow> py_error + column" where
  "getitem data label =
     (case find (\<lambda>c. name c = label) data of None \<Rightarrow> Inl KeyError | Some c \<Rightarrow> Inr c)"

section \<open>Series statistics\<close>

text \<open>
  The reductions of pandas skip missing values. \<open>num_values\<close> keeps the numbers of
  a series; a reduction that has nothing to reduce is \<open>NaN\<close>. Sums, means and
  deviations are exact: neither the rounding of float64 nor the wrap-around of an int64 sum
  beyond 2^63 is represented.
\<close>

fun num_values :: "cell list \<Rightarrow> real list" where
  "num_values [] = []"
| "num_values (Num r # vs) = r # num_values vs"
| "num_values (v # vs) = num_values vs"

definition series_count :: "cell list \<Rightarrow> nat" where
  "series_count vs = length (filter (\<lambda>v. \<not> isnull v) vs)"

definition nunique :: "cell list \<Rightarrow> nat" where
  "nunique vs = length (remdups (filter (\<lambda>v. \<not> isnull v) vs))"

definition series_sum :: "cell list \<Rightarrow> real" where
  "series_sum vs = sum_list (num_values vs)"

definition mean_of :: "real list \<Rightarrow> npfloat" where
  "mean_of xs = np_div (Fin (sum_list xs)) (Fin (real (length xs)))"

text \<open>The sample standard deviation (\<open>ddof=1\<close>), undefined below two values.\<close>

definition std_of :: "real list \<Rightarrow> npfloat" where
  "std_of xs =
     (if length xs < 2 then NaN
      else let m = sum_list xs / real (length xs)
           in Fin (sqrt (sum_list (map (\<lambda>x. (x - m)\<^sup>2) xs) / real (length xs - 1))))"

fun min_of :: "real list \<Rightarrow> npfloat" where
  "min_of [] = NaN"
| "min_of (x # xs) = Fin (fold min xs x)"

fun max_of :: "real list \<Rightarrow> npfloat" where
  "max_of [] = NaN"
| "max_of (x # xs) = Fin (fold max xs x)"

text \<open>
  \<open>Series.quantile(q)\<close> with the default linear interpolation between the two order
  statistics around position \<open>(n - 1) * q\<close>.
\<close>

definition quantile_of :: "real \<Rightarrow> real list \<Rightarrow> npfloat" where
  "quantile_of q xs =
     (let s = sort xs; n = length s
      in if n = 0 then NaN
         else let pos = real (n - 1) * q; lo = nat \<lfloor>pos\<rfloor>; frac = pos - real lo
              in Fin (if lo + 1 < n then s ! lo + (s ! (lo + 1) - s ! lo) * frac else s ! lo))"

definition series_mean :: "cell list \<Rightarrow> npfloat" where
  "series_mean vs = mean_of (num_values vs)"

definition series_std :: "cell list \<Rightarrow> npfloat" where
  "series_std vs = std_of (num_values vs)"

definition series_quantile :: "real \<Rightarrow> cell list \<Rightarrow> npfloat" where
  "series_quantile q vs = quantile_of q (num_values vs)"

text \<open>
  The same reductions on a series of computed floats (growth rates, group means), which
  may hold \<open>NaN\<close> and infinities: \<open>NaN\<close> is skipped, and an infinity makes the
  deviation undefined.
\<close>

definition skipna :: "npfloat list \<Rightarrow> npfloat list" where
  "skipna xs = filter (\<lambda>x. x \<noteq> NaN) xs"

fun fin_values :: "npfloat list \<Rightarrow> real list" where
  "fin_values [] = []"
| "fin_values (Fin a # xs) = a # fin_values xs"
| "fin_values (x # xs) = fin_values xs"

fun is_fin :: "npfloat \<Rightarrow> bool" where
  "is_fin (Fin a) = True"
| "is_fin x = False"

definition np_mean :: "npfloat list \<Rightarrow> npfloat" where
  "np_mean xs = (let ys = skipna xs in np_div (fold (\<lambda>y acc. np_add acc y) ys (Fin 0)) (Fin (real (length ys))))"

definition np_std :: "npfloat list \<Rightarrow> npfloat" where
  "np_std xs = (let ys = skipna xs in if list_all is_fin ys then std_of (fin_values ys) else NaN)"

fun np_abs :: "npfloat \<Rightarrow> npfloat" where
  "np_abs (Fin a) = Fin \<bar>a\<bar>"
| "np_abs NaN = NaN"
| "np_abs x = PosInf"

section \<open>Grouping\<close>

text \<open>
  \<open>groupby\<close> drops the rows whose key is missing and orders the groups by key. Keys of
  one kind are ordered as Python orders them (numbers by value, strings lexicographically,
  timestamps and periods chronologically); \<open>cell_key\<close> makes that one linear order.
\<close>

fun cell_key :: "cell \<Rightarrow> nat \<times> real \<times> string \<times> int \<times> nat \<times> nat" where
  "cell_key Null = (0, 0, [], 0, 0, 0)"
| "cell_key (Num r) = (1, r, [], 0, 0, 0)"
| "cell_key (Str s) = (2, 0, s, 0, 0, 0)"
| "cell_key (Ts t) = (3, 0, [], fst t, fst (snd t), snd (snd t))"
| "cell_key (Per p) = (4, 0, [], fst p, snd p, 0)"

definition group_keys :: "cell list \<Rightarrow> cell list" where
  "group_keys keys = sort_key cell_key (remdups (filter (\<lambda>k. \<not> isnull k) keys))"

definition groupby :: "cell list \<Rightarrow> cell list \<Rightarrow> (cell \<times> cell list) list" where
  "groupby keys vals =
     map (\<lambda>k. (k, map snd (filter (\<lambda>kv. fst kv = k) (zip keys vals)))) (group_keys keys)"

text \<open>\<open>groupby(label).size()\<close> and \<open>groupby(label)[col].sum()\<close> as labelled series.\<close>

definition group_sizes :: "cell list \<Rightarrow> (cell \<times> npfloat) list" where
  "group_sizes keys = map (\<lambda>g. (fst g, Fin (real (length (snd g))))) (groupby keys keys)"

definition group_sums :: "cell list \<Rightarrow> cell list \<Rightarrow> (cell \<times> npfloat) list" where
  "group_sums keys vals = map (\<lambda>g. (fst g, Fin (series_sum (snd g)))) (groupby keys vals)"

text \<open>
  \<open>idxmax\<close> and \<open>idxmin\<close> of a labelled series: the label of the first largest
  (smallest) value, \<open>NaN\<close> skipped; \<open>None\<close> when there is no value. The
  series they are applied to hold finite values and \<open>NaN\<close> only.
\<close>

fun idxmax_from :: "'a \<Rightarrow> real \<Rightarrow> ('a \<times> npfloat) list \<Rightarrow> 'a" where
  "idxmax_from k m [] = k"
| "idxmax_from k m ((k', Fin a) # xs) = (if m < a then idxmax_from k' a xs else idxmax_from k m xs)"
| "idxmax_from k m (x # xs) = idxmax_from k m xs"

fun idxmax :: "('a \<times> npfloat) list \<Rightarrow> 'a option" where
  "idxmax [] = None"
| "idxmax ((k, Fin a) # xs) = Some (idxmax_from k a xs)"
| "idxmax (x # xs) = idxmax xs"

fun idxmin_from :: "'a \<Rightarrow> real \<Rightarrow> ('a \<times> npfloat) list \<Rightarrow> 'a" where
  "idxmin_from k m [] = k"
| "idxmin_from k m ((k', Fin a) # xs) = (if a < m then idxmin_from k' a xs else idxmin_from k m xs)"
| "idxmin_from k m (x # xs) = idxmin_from k m xs"

fun idxmin :: "('a \<times> npfloat) list \<Rightarrow> 'a option" where
  "idxmin [] = None"
| "idxmin ((k, Fin a) # xs) = Some (idxmin_from k a xs)"
| "idxmin (x # xs) = idxmin xs"

section \<open>Step 1: data overview\<close>

text \<open>
  The overview carries the shape of the frame and one record per column. The byte count of
  \<open>memory_usage\<close> depends on the memory layout and is not part of the model. Step titles
  are written without their leading pictograph.
\<close>

record numeric_summary =
  col_mean :: npfloat
  col_median :: npfloat
  col_std :: npfloat
  col_min :: npfloat
  col_max :: npfloat

datatype unique_values = Unique nat | Fifty_plus

record col_info =
  col_name :: string
  col_type :: dtype
  non_null_count :: nat
  null_count_of :: nat
  null_percentage_of :: npfloat
  unique_values_of :: unique_values
  summary :: "numeric_summary option"

definition column_info :: "dataframe \<Rightarrow> column \<Rightarrow> col_info" where
  "column_info data c =
     \<lparr> col_name = name c,
       col_type = dtype c,
       non_null_count = series_count (cells c),
       null_count_of = null_count c,
       null_percentage_of = np_mul (np_div (Fin (real (null_count c))) (Fin (real (len data)))) (Fin 100),
       unique_values_of =
         (if dtype c \<noteq> Object \<or> nunique (cells c) < 50 then Unique (nunique (cells c)) else Fifty_plus),
       summary =
         (if dtype c = Int64 \<or> dtype c = Float64
          then Some \<lparr> col_mean = series_mean (cells c),
                      col_median = series_quantile (1 / 2) (cells c),
                      col_std = series_std (cells c),
                      col_min = min_of (num_values (cells c)),
                      col_max = max_of (num_values (cells c)) \<rparr>
          else None) \<rparr>"

record overview_details =
  total_rows :: nat
  total_columns :: nat
  data_types :: "dtype \<Rightarrow> nat option"
  column_info_of :: "col_info list"

definition overview_details :: "dataframe \<Rightarrow> overview_details" where
  "overview_details data =
     \<lparr> total_rows = len data,
       total_columns = length data,
       data_types = (\<lambda>d. let n = length (filter (\<lambda>c. dtype c = d) data)
                           in if 0 < n then Some n else None),
       column_info_of = map (column_info data) data \<rparr>"

section \<open>Step 2: data quality\<close>

definition total_cells :: "dataframe \<Rightarrow> nat" where
  "total_cells data = len data * length data"

definition completeness_score :: "dataframe \<Rightarrow> npfloat" where
  "completeness_score data =
     np_mul (np_div (Fin (real_of_int (int (total_cells data) - int (null_cells data))))
                    (Fin (real (total_cells data))))
            (Fin 100)"

definition duplicate_rows :: "dataframe \<Rightarrow> nat" where
  "duplicate_rows data = length (filter id (duplicated data))"

definition consistency_score :: "dataframe \<Rightarrow> npfloat" where
  "consistency_score data =
     np_mul (np_div (Fin (real_of_int (int (len data) - int (duplicate_rows data))))
                    (Fin (real (len data))))
            (Fin 100)"

datatype validity_issue = Infinite_values string | Negative_amount string

fun is_negative :: "cell \<Rightarrow> bool" where
  "is_negative (Num r) = (r < 0)"
| "is_negative v = False"

text \<open>
  The loop over the numeric columns. The test for infinite values never fires in the
  model, whose numbers are finite; the test for negative amounts is the source's.
  \<open>Negative_amount col\<close> stands for the text
  \<^verbatim>\<open>Negative values in amount field: {col}\<close>.
\<close>

definition validity_issues :: "dataframe \<Rightarrow> validity_issue list" where
  "validity_issues data =
     concat (map (\<lambda>c. if list_ex is_negative (cells c) \<and> str_contains (lower (name c)) ''amount''
                        then [Negative_amount (name c)] else [])
                 (numeric_cols data))"

definition validity_score :: "dataframe \<Rightarrow> int" where
  "validity_score data = max 0 (100 - int (length (validity_issues data)) * 10)"

definition overall_score :: "dataframe \<Rightarrow> npfloat" where
  "overall_score data =
     np_div (np_add (np_add (completeness_score data) (consistency_score data))
                    (Fin (real_of_int (validity_score data))))
            (Fin 3)"

text \<open>
  The texts of the quality report. \<open>Found_duplicates n\<close> stands for
  \<^verbatim>\<open>Found {n} duplicate rows\<close>.
\<close>

datatype quality_issue = Significant_missing_values | Found_duplicates nat

definition strengths :: "dataframe \<Rightarrow> string list" where
  "strengths data =
     (if np_less (Fin 95) (completeness_score data) then [''Excellent data completeness'']
      else if np_less (Fin 85) (completeness_score data) then [''Good data completeness'']
      else [])"

definition issues :: "dataframe \<Rightarrow> quality_issue list" where
  "issues data =
     (if np_less (Fin 95) (completeness_score data) then []
      else if np_less (Fin 85) (completeness_score data) then []
      else [Significant_missing_values])
     @ (if 0 < duplicate_rows data then [Found_duplicates (duplicate_rows data)] else [])"

record completeness_details =
  completeness_score_of :: npfloat
  missing_values :: nat
  complete_rows :: nat
  completion_rate :: npfloat

record consistency_details =
  consistency_score_of :: npfloat
  duplicate_rows_of :: nat
  unique_rows :: int

record validity_details =
  validity_score_of :: int
  validity_issues_of :: "validity_issue list"

record quality_details =
  overall_score_of :: npfloat
  issues_of :: "quality_issue list"
  strengths_of :: "string list"
  completeness :: completeness_details
  consistency :: consistency_details
  validity :: validity_details

definition quality_details :: "dataframe \<Rightarrow> quality_details" where
  "quality_details data =
     \<lparr> overall_score_of = overall_score data,
       issues_of = issues data,
       strengths_of = strengths data,
       completeness = \<lparr> completeness_score_of = completeness_score data,
                        missing_values = null_cells data,
                        complete_rows = length (dropna_rows data),
                        completion_rate = completeness_score data \<rparr>,
       consistency = \<lparr> consistency_score_of = consistency_score data,
                       duplicate_rows_of = duplicate_rows data,
                       unique_rows = int (len data) - int (duplicate_rows data) \<rparr>,
       validity = \<lparr> validity_score_of = validity_score data,
                    validity_issues_of = validity_issues data \<rparr> \<rparr>"

section \<open>Step 3: statistical analysis\<close>

record describe_stats =
  d_count :: nat
  d_mean :: npfloat
  d_std :: npfloat
  d_min :: npfloat
  d_q25 :: npfloat
  d_q50 :: npfloat
  d_q75 :: npfloat
  d_max :: npfloat

definition describe :: "column \<Rightarrow> describe_stats" where
  "describe c =
     \<lparr> d_count = series_count (cells c),
       d_mean = series_mean (cells c),
       d_std = series_std (cells c),
       d_min = min_of (num_values (cells c)),
       d_q25 = series_quantile (1 / 4) (cells c),
       d_q50 = series_quantile (1 / 2) (cells c),
       d_q75 = series_quantile (3 / 4) (cells c),
       d_max = max_of (num_values (cells c)) \<rparr>"

text \<open>
  \<open>data[numeric_cols].corr()\<close> is the library's: it converts the columns to float64
  and returns the square matrix of their Pearson coefficients, labelled in both directions
  with the labels of the columns, so \<open>len(corr_matrix.columns)\<close> is the number of
  numeric columns. The matrix is a parameter of the model, as the date parser is:
  \<open>corr cs ! i ! j\<close> is the float64 value that \<open>corr_matrix.iloc[i, j]\<close>
  reads (the value of the double, or \<open>NaN\<close> where the library leaves the
  coefficient undefined), whatever rounding the library's computation went through.
\<close>

type_synonym corr = "column list \<Rightarrow> npfloat list list"

text \<open>
  The literal \<open>0.7\<close> of the source is the double nearest to 7/10, which lies below
  it: 6305039478318694 / 2^53.
\<close>

definition float_0_7 :: real where
  "float_0_7 = 6305039478318694 / 2 ^ 53"

record strong_corr =
  var1 :: string
  var2 :: string
  correlation :: npfloat

text \<open>
  The two nested loops over \<open>range(len(corr_matrix.columns))\<close> and
  \<open>range(i+1, len(corr_matrix.columns))\<close>, with the test
  \<open>abs(corr_val) > 0.7\<close>.
\<close>

definition strong_corrs :: "corr \<Rightarrow> column list \<Rightarrow> strong_corr list" where
  "strong_corrs corr cs =
     concat (map (\<lambda>i.
       concat (map (\<lambda>j.
         if np_less (Fin float_0_7) (np_abs (corr cs ! i ! j))
         then [\<lparr> var1 = name (cs ! i), var2 = name (cs ! j),
                 correlation = corr cs ! i ! j \<rparr>]
         else [])
       [i + 1 ..< length cs]))
     [0 ..< length cs])"

record outlier_info =
  outlier_count :: nat
  outlier_percentage :: npfloat
  lower_bound :: npfloat
  upper_bound :: npfloat

definition np_neg :: "npfloat \<Rightarrow> npfloat" where
  "np_neg x = np_mul (Fin (- 1)) x"

fun is_outlier :: "npfloat \<Rightarrow> npfloat \<Rightarrow> cell \<Rightarrow> bool" where
  "is_outlier lo hi (Num r) = (np_less (Fin r) lo \<or> np_less hi (Fin r))"
| "is_outlier lo hi v = False"

definition outliers :: "dataframe \<Rightarrow> column \<Rightarrow> outlier_info" where
  "outliers data c =
     (let Q1 = series_quantile (1 / 4) (cells c);
          Q3 = series_quantile (3 / 4) (cells c);
          IQR = np_add Q3 (np_neg Q1);
          lower = np_add Q1 (np_neg (np_mul (Fin (3 / 2)) IQR));
          upper = np_add Q3 (np_mul (Fin (3 / 2)) IQR);
          n = length (filter (is_outlier lower upper) (cells c))
      in \<lparr> outlier_count = n,
           outlier_percentage = np_mul (np_div (Fin (real n)) (Fin (real (len data)))) (Fin 100),
           lower_bound = lower,
           upper_bound = upper \<rparr>)"

text \<open>
  The details of step 3. \<open>correlations\<close> stays empty and the key
  \<open>strong_correlations\<close> is absent (\<open>None\<close>) unless the frame has more than one
  numeric column.
\<close>

record statistics_details =
  summary_statistics :: "(string \<times> describe_stats) list"
  correlations :: "npfloat list list"
  strong_correlations :: "strong_corr list option"
  outliers_of :: "(string \<times> outlier_info) list"

definition statistics_details :: "corr \<Rightarrow> dataframe \<Rightarrow> statistics_details" where
  "statistics_details corr data =
     (let cs = numeric_cols data
      in if 0 < length cs
         then \<lparr> summary_statistics = map (\<lambda>c. (name c, describe c)) cs,
                correlations = (if 1 < length cs then corr cs else []),
                strong_correlations = (if 1 < length cs then Some (strong_corrs corr cs) else None),
                outliers_of = map (\<lambda>c. (name c, outliers data c)) cs \<rparr>
         else \<lparr> summary_statistics = [], correlations = [], strong_correlations = None,
                outliers_of = [] \<rparr>)"

section \<open>Step 4: pattern detection\<close>

text \<open>
  Step 4 works on a copy \<open>temp_data\<close> of the frame and writes columns into it by
  label: the parsed dates over \<open>date_col\<close>, then \<open>'month'\<close>, then
  \<open>'month_num'\<close>. The model keeps the copy as a frame and reads every column back by
  its label, as the source does, so a column of the input that already carries one of
  these labels is overwritten here as it is there.
\<close>

definition setitem :: "dataframe \<Rightarrow> string \<Rightarrow> dtype \<Rightarrow> cell list \<Rightarrow> dataframe" where
  "setitem data label d vs =
     (if label \<in> set (columns data)
      then map (\<lambda>c. if name c = label then c\<lparr>dtype := d, cells := vs\<rparr> else c) data
      else data @ [\<lparr> name = label, dtype = d, cells = vs \<rparr>])"

fun ts_cell :: "timestamp option \<Rightarrow> cell" where
  "ts_cell None = Null"
| "ts_cell (Some t) = Ts t"

text \<open>\<open>sort_values(label)\<close>: the rows in increasing order of the column, missing last.\<close>

definition sort_order :: "cell list \<Rightarrow> nat list" where
  "sort_order keys = sort_key (\<lambda>i. (isnull (keys ! i), cell_key (keys ! i))) [0..<length keys]"

definition take_rows :: "nat list \<Rightarrow> dataframe \<Rightarrow> dataframe" where
  "take_rows idx data = map (\<lambda>c. c\<lparr>cells := map (\<lambda>i. cells c ! i) idx\<rparr>) data"

definition sort_values :: "dataframe \<Rightarrow> string \<Rightarrow> py_error + dataframe" where
  "sort_values data label =
     bind_err (getitem data label) (\<lambda>c. Inr (take_rows (sort_order (cells c)) data))"

text \<open>\<open>.dt.to_period('M')\<close> and \<open>.dt.month\<close>, cell by cell.\<close>

fun to_period :: "cell \<Rightarrow> cell" where
  "to_period (Ts t) = Per (fst t, fst (snd t))"
| "to_period v = Null"

fun dt_month :: "cell \<Rightarrow> cell" where
  "dt_month (Ts t) = Num (real (fst (snd t)))"
| "dt_month (Per p) = Num (real (snd p))"
| "dt_month v = Null"

definition month_dtype :: "cell list \<Rightarrow> dtype" where
  "month_dtype vs = (if list_ex isnull vs then Float64 else Int64)"

definition group_counts :: "cell list \<Rightarrow> cell list \<Rightarrow> (cell \<times> npfloat) list" where
  "group_counts keys vals = map (\<lambda>g. (fst g, Fin (real (series_count (snd g))))) (groupby keys vals)"

definition group_means :: "cell list \<Rightarrow> cell list \<Rightarrow> (cell \<times> npfloat) list" where
  "group_means keys vals = map (\<lambda>g. (fst g, series_mean (snd g))) (groupby keys vals)"

text \<open>
  \<open>monthly_data\<close>: the value column summed per month when its dtype is numeric,
  counted otherwise.
\<close>

definition monthly_data :: "dataframe \<Rightarrow> string \<Rightarrow> py_error + (cell \<times> npfloat) list" where
  "monthly_data temp_data value_col =
     bind_err (getitem temp_data ''month'') (\<lambda>month.
     bind_err (getitem temp_data value_col) (\<lambda>v.
       Inr (if is_number (dtype v)
            then group_sums (cells month) (cells v)
            else group_counts (cells month) (cells v))))"

text \<open>
  \<open>pct_change()\<close>: each value divided by the one before, minus one; the first entry
  is \<open>NaN\<close>. The rates are exact: an average rate that float64 rounds across zero
  has the sign of the exact value here.
\<close>

fun pct_change_from :: "npfloat \<Rightarrow> npfloat list \<Rightarrow> npfloat list" where
  "pct_change_from prev [] = []"
| "pct_change_from prev (x # xs) = np_add (np_div x prev) (Fin (- 1)) # pct_change_from x xs"

fun pct_change :: "npfloat list \<Rightarrow> npfloat list" where
  "pct_change [] = []"
| "pct_change (x # xs) = NaN # pct_change_from x xs"

record growth_trend =
  growth_metric :: string
  average_monthly_growth :: npfloat
  trend_direction :: string
  volatility :: npfloat

definition growth_trend :: "string \<Rightarrow> (cell \<times> npfloat) list \<Rightarrow> growth_trend" where
  "growth_trend value_col monthly =
     (let growth_rates = skipna (pct_change (map snd monthly));
          avg_growth = np_mul (np_mean growth_rates) (Fin 100)
      in \<lparr> growth_metric = value_col,
           average_monthly_growth = avg_growth,
           trend_direction = (if np_less (Fin 0) avg_growth then ''increasing'' else ''decreasing''),
           volatility = np_mul (np_std growth_rates) (Fin 100) \<rparr>)"

text \<open>
  \<open>seasonal_pattern\<close>: after \<open>temp_data['month_num'] = temp_data[date_col].dt.month\<close>,
  the mean of the value column per month of the year. A value column that is no longer
  numeric at this point (it was the date column, or it was labelled \<open>'month'\<close>) has no
  numeric mean to divide, and the step raises.
\<close>

definition seasonal_pattern ::
  "dataframe \<Rightarrow> string \<Rightarrow> string \<Rightarrow> py_error + (cell \<times> npfloat) list" where
  "seasonal_pattern temp_data date_col value_col =
     bind_err (getitem temp_data date_col) (\<lambda>date.
       let months = map dt_month (cells date);
           temp_data' = setitem temp_data ''month_num'' (month_dtype months) months
       in bind_err (getitem temp_data' ''month_num'') (\<lambda>month_num.
          bind_err (getitem temp_data' value_col) (\<lambda>v.
            if is_number (dtype v)
            then Inr (group_means (cells month_num) (cells v))
            else Inl TypeError)))"

definition seasonal_strength :: "(cell \<times> npfloat) list \<Rightarrow> npfloat" where
  "seasonal_strength pattern = np_div (np_std (map snd pattern)) (np_mean (map snd pattern))"

record seasonal_record =
  metric :: string
  strength :: npfloat
  peak_month :: cell
  low_month :: cell

definition seasonal_records ::
  "string \<Rightarrow> (cell \<times> npfloat) list \<Rightarrow> py_error + seasonal_record list" where
  "seasonal_records value_col pattern =
     (if np_less (Fin (1 / 10)) (seasonal_strength pattern)
      then (case idxmax pattern of
              None \<Rightarrow> Inl ValueError
            | Some peak \<Rightarrow>
                (case idxmin pattern of
                   None \<Rightarrow> Inl ValueError
                 | Some low \<Rightarrow>
                     Inr [\<lparr> metric = value_col, strength = seasonal_strength pattern,
                            peak_month = peak, low_month = low \<rparr>]))
      else Inr [])"

record pattern_details =
  temporal_patterns :: "unit list"
  seasonal_patterns :: "seasonal_record list"
  growth_trends :: "growth_trend list"
  anomalies :: "unit list"

definition no_patterns :: pattern_details where
  "no_patterns = \<lparr> temporal_patterns = [], seasonal_patterns = [], growth_trends = [], anomalies = [] \<rparr>"

text \<open>
  The working copy after the dates are parsed (the whole column this time, outside any
  \<open>try\<close>: a failure of the parser leaves the step), the rows sorted and the
  \<open>'month'\<close> column written.
\<close>

definition temporal_frame :: "to_datetime \<Rightarrow> dataframe \<Rightarrow> column \<Rightarrow> py_error + dataframe" where
  "temporal_frame to_dt data date_column =
     (case to_dt (cells date_column) of
        None \<Rightarrow> Inl ValueError
      | Some parsed \<Rightarrow>
          bind_err (sort_values (setitem data (name date_column) Datetime64 (map ts_cell parsed))
                                (name date_column)) (\<lambda>sorted.
          bind_err (getitem sorted (name date_column)) (\<lambda>date.
            Inr (setitem sorted ''month'' PeriodM (map to_period (cells date))))))"

definition pattern_details :: "to_datetime \<Rightarrow> dataframe \<Rightarrow> py_error + pattern_details" where
  "pattern_details to_dt data =
     (case date_cols to_dt data of
        [] \<Rightarrow> Inr no_patterns
      | date_column # other_dates \<Rightarrow>
          (case numeric_cols data of
             [] \<Rightarrow> Inr no_patterns
           | value_column # other_values \<Rightarrow>
               bind_err (temporal_frame to_dt data date_column) (\<lambda>temp_data.
               bind_err (monthly_data temp_data (name value_column)) (\<lambda>monthly.
               bind_err (if 12 \<le> length monthly
                         then bind_err (seasonal_pattern temp_data (name date_column) (name value_column))
                                       (seasonal_records (name value_column))
                         else Inr []) (\<lambda>seasonal.
                 Inr \<lparr> temporal_patterns = [],
                       seasonal_patterns = seasonal,
                       growth_trends = (if 1 < length monthly
                                        then [growth_trend (name value_column) monthly] else []),
                       anomalies = [] \<rparr>)))))"

section \<open>Step 5: business intelligence\<close>

text \<open>
  An insight is one formatted line of text; the model keeps which line it is and the
  values formatted into it:
  \<^item> \<open>Total_revenue col x\<close>: \<^verbatim>\<open>Total {col.replace('_', ' ')}: ${x:,.0f}\<close>
  \<^item> \<open>Average_transaction x\<close>: \<^verbatim>\<open>Average transaction value: ${x:,.0f}\<close>
  \<^item> \<open>High_value_transactions n\<close>: \<^verbatim>\<open>High-value transactions (top 20%): {n} transactions\<close>
  \<^item> \<open>Unique_customers n\<close>: \<^verbatim>\<open>Total unique customers: {n:,}\<close>
  \<^item> \<open>Transactions_per_customer x\<close>: \<^verbatim>\<open>Average transactions per customer: {x:.1f}\<close>
  \<^item> \<open>Top_market_by_volume k\<close>: \<^verbatim>\<open>Top market by volume: {k}\<close>
  \<^item> \<open>Top_market_by_revenue k\<close>: \<^verbatim>\<open>Top market by revenue: {k}\<close>
  \<^item> \<open>Most_popular_product k\<close>: \<^verbatim>\<open>Most popular product: {k}\<close>
\<close>

datatype insight =
    Total_revenue string real
  | Average_transaction npfloat
  | High_value_transactions nat
  | Unique_customers nat
  | Transactions_per_customer real
  | Top_market_by_volume cell
  | Top_market_by_revenue cell
  | Most_popular_product cell

definition revenue_cols :: "dataframe \<Rightarrow> column list" where
  "revenue_cols data =
     filter (\<lambda>c. list_ex (\<lambda>word. str_contains (lower (name c)) word)
                    [''revenue'', ''total'', ''amount'', ''price''])
            (numeric_cols data)"

definition replace_underscore :: "string \<Rightarrow> string" where
  "replace_underscore s = map (\<lambda>ch. if ch = CHR ''_'' then CHR '' '' else ch) s"

fun at_least :: "npfloat \<Rightarrow> cell \<Rightarrow> bool" where
  "at_least t (Num r) = np_le t (Fin r)"
| "at_least t v = False"

definition revenue_insights :: "dataframe \<Rightarrow> insight list" where
  "revenue_insights data =
     (case revenue_cols data of
        [] \<Rightarrow> []
      | revenue_col # rest \<Rightarrow>
          [Total_revenue (replace_underscore (name revenue_col)) (series_sum (cells revenue_col)),
           Average_transaction (series_mean (cells revenue_col)),
           High_value_transactions
             (length (filter (at_least (series_quantile (8 / 10) (cells revenue_col)))
                             (cells revenue_col)))])"

text \<open>
  \<open>len(data) / unique_customers\<close> divides two Python integers: a customer column
  without any value gives \<open>nunique() = 0\<close> and the division raises.
\<close>

definition customer_insights :: "dataframe \<Rightarrow> py_error + insight list" where
  "customer_insights data =
     (if ''customer_name'' \<in> set (columns data) \<or> ''customer_id'' \<in> set (columns data)
      then bind_err
             (getitem data (if ''customer_name'' \<in> set (columns data)
                            then ''customer_name'' else ''customer_id''))
             (\<lambda>customer_col.
                let unique_customers = nunique (cells customer_col)
                in if unique_customers = 0 then Inl ZeroDivisionError
                   else Inr [Unique_customers unique_customers,
                             Transactions_per_customer (real (len data) / real unique_customers)])
      else Inr [])"

text \<open>
  \<open>idxmax()\<close> of a series without groups raises \<open>ValueError\<close>, and
  \<open>revenue_cols[0]\<close> is read here whether or not the list has an entry. The first
  label of the sums sorted in decreasing order is a label of the largest sum. When several
  labels share the largest sum the library's sort decides which of them comes first; the
  model takes the first of them in key order, which need not be the library's choice.
\<close>

definition geographic_insights :: "dataframe \<Rightarrow> py_error + insight list" where
  "geographic_insights data =
     (if ''customer_country'' \<in> set (columns data)
      then bind_err (getitem data ''customer_country'')
             (\<lambda>country.
                case idxmax (group_sizes (cells country)) of
                  None \<Rightarrow> Inl ValueError
                | Some top_country \<Rightarrow>
                    (case revenue_cols data of
                       [] \<Rightarrow> Inl IndexError
                     | revenue_col # rest \<Rightarrow>
                         (case idxmax (group_sums (cells country) (cells revenue_col)) of
                            None \<Rightarrow> Inl IndexError
                          | Some top_revenue \<Rightarrow>
                              Inr [Top_market_by_volume top_country,
                                   Top_market_by_revenue top_revenue])))
      else Inr [])"

definition product_insights :: "dataframe \<Rightarrow> py_error + insight list" where
  "product_insights data =
     (if ''product_name'' \<in> set (columns data)
      then bind_err (getitem data ''product_name'')
             (\<lambda>product.
                case idxmax (group_sizes (cells product)) of
                  None \<Rightarrow> Inl ValueError
                | Some top_product \<Rightarrow> Inr [Most_popular_product top_product])
      else Inr [])"

text \<open>
  The four blocks run in this order and append to one list; the first exception leaves
  the function.
\<close>

definition insights :: "dataframe \<Rightarrow> py_error + insight list" where
  "insights data =
     bind_err (customer_insights data) (\<lambda>customer.
     bind_err (geographic_insights data) (\<lambda>geographic.
     bind_err (product_insights data) (\<lambda>product.
       Inr (revenue_insights data @ customer @ geographic @ product))))"

section \<open>Step 6: recommendations\<close>

record rec_dict =
  category :: string
  recommendation :: string
  priority :: string
  impact :: string

definition data_quality_rec :: rec_dict where
  "data_quality_rec =
     \<lparr> category = ''Data Quality'',
       recommendation = ''Implement data validation processes to reduce missing values'',
       priority = ''High'',
       impact = ''Improve analysis accuracy and decision-making reliability'' \<rparr>"

definition performance_monitoring_rec :: rec_dict where
  "performance_monitoring_rec =
     \<lparr> category = ''Performance Monitoring'',
       recommendation = ''Implement real-time dashboards for trend monitoring'',
       priority = ''Medium'',
       impact = ''Enable proactive decision-making and early issue detection'' \<rparr>"

definition market_expansion_rec :: rec_dict where
  "market_expansion_rec =
     \<lparr> category = ''Market Expansion'',
       recommendation = ''Analyze underperforming geographic markets for growth opportunities'',
       priority = ''Medium'',
       impact = ''Potential revenue growth through market development'' \<rparr>"

definition process_automation_rec :: rec_dict where
  "process_automation_rec =
     \<lparr> category = ''Process Automation'',
       recommendation = ''Automate recurring analytics workflows to reduce manual effort'',
       priority = ''Low'',
       impact = ''Increase efficiency and reduce human error in reporting'' \<rparr>"

definition null_percentage :: "dataframe \<Rightarrow> npfloat" where
  "null_percentage data =
     np_mul (np_div (Fin (real (null_cells data))) (Fin (real (len data * length data))))
            (Fin 100)"

definition recommendations :: "to_datetime \<Rightarrow> dataframe \<Rightarrow> rec_dict list" where
  "recommendations to_dt data =
     (if np_less (Fin 10) (null_percentage data) then [data_quality_rec] else [])
     @ (if 0 < length (numeric_cols data)
        then (if date_cols to_dt data \<noteq> [] then [performance_monitoring_rec] else [])
        else [])
     @ (if ''customer_country'' \<in> set (columns data) then [market_expansion_rec] else [])
     @ [process_automation_rec]"

section \<open>The six steps and the report\<close>

record bi_details =
  bi_insights :: "insight list"
  kpis :: "unit list"
  segments :: "unit list"

record rec_details =
  rec_recommendations :: "rec_dict list"
  action_items :: "unit list"
  risk_alerts :: "unit list"

datatype step_body =
    Overview overview_details
  | Quality quality_details
  | Statistics statistics_details
  | Patterns pattern_details
  | Business bi_details
  | Strategy rec_details

record step =
  step_number :: nat
  title :: string
  status :: string
  body :: step_body

definition step_1_data_overview :: "dataframe \<Rightarrow> step" where
  "step_1_data_overview data =
     \<lparr> step_number = 1, title = ''Data Overview & Structure'', status = ''completed'',
       body = Overview (overview_details data) \<rparr>"

definition step_2_data_quality :: "dataframe \<Rightarrow> step" where
  "step_2_data_quality data =
     \<lparr> step_number = 2, title = ''Data Quality Assessment'', status = ''completed'',
       body = Quality (quality_details data) \<rparr>"

definition step_3_statistical_analysis :: "corr \<Rightarrow> dataframe \<Rightarrow> step" where
  "step_3_statistical_analysis corr data =
     \<lparr> step_number = 3, title = ''Statistical Analysis'', status = ''completed'',
       body = Statistics (statistics_details corr data) \<rparr>"

definition step_4_pattern_detection :: "to_datetime \<Rightarrow> dataframe \<Rightarrow> string \<Rightarrow> py_error + step" where
  "step_4_pattern_detection to_dt data prompt =
     bind_err (pattern_details to_dt data) (\<lambda>details.
       Inr \<lparr> step_number = 4, title = ''Pattern Detection & Trends'', status = ''completed'',
             body = Patterns details \<rparr>)"

definition step_5_business_intelligence :: "dataframe \<Rightarrow> string \<Rightarrow> py_error + step" where
  "step_5_business_intelligence data prompt =
     bind_err (insights data) (\<lambda>found.
       Inr \<lparr> step_number = 5, title = ''Business Intelligence & Insights'', status = ''completed'',
             body = Business \<lparr> bi_insights = found, kpis = [], segments = [] \<rparr> \<rparr>)"

definition step_6_recommendations :: "to_datetime \<Rightarrow> dataframe \<Rightarrow> string \<Rightarrow> step" where
  "step_6_recommendations to_dt data prompt =
     \<lparr> step_number = 6, title = ''Strategic Recommendations'', status = ''completed'',
       body = Strategy \<lparr> rec_recommendations = recommendations to_dt data,
                          action_items = [], risk_alerts = [] \<rparr> \<rparr>"

text \<open>The reads \<open>quality['details']\<close>, \<open>business_intel['insights']\<close> and
  \<open>recommendations['recommendations']\<close> of the report's assembly.\<close>

fun details_of :: "step \<Rightarrow> quality_details option" where
  "details_of s = (case body s of Quality q \<Rightarrow> Some q | b \<Rightarrow> None)"

fun insights_of_step :: "step \<Rightarrow> insight list" where
  "insights_of_step s = (case body s of Business b \<Rightarrow> bi_insights b | b \<Rightarrow> [])"

fun recommendations_of_step :: "step \<Rightarrow> rec_dict list" where
  "recommendations_of_step s = (case body s of Strategy r \<Rightarrow> rec_recommendations r | b \<Rightarrow> [])"

record analysis_results =
  steps :: "step list"
  report_insights :: "insight list"
  report_recommendations :: "rec_dict list"
  data_quality :: "quality_details option"

text \<open>
  The report: the six steps run in order, none of them inside a \<open>try\<close>, so the first
  exception of a step is the exception of the whole call. The two calls into the library
  that the model leaves open, \<open>DataFrame.corr()\<close> and \<open>pd.to_datetime\<close>,
  are its first two arguments.
\<close>

definition analyze_data_step_by_step ::
  "corr \<Rightarrow> to_datetime \<Rightarrow> dataframe \<Rightarrow> string \<Rightarrow> py_error + analysis_results" where
  "analyze_data_step_by_step corr to_dt data prompt =
     (let overview = step_1_data_overview data;
          quality = step_2_data_quality data;
          stats = step_3_statistical_analysis corr data
      in bind_err (step_4_pattern_detection to_dt data prompt) (\<lambda>patterns.
         bind_err (step_5_business_intelligence data prompt) (\<lambda>business_intel.
           let recs = step_6_recommendations to_dt data prompt
           in Inr \<lparr> steps = [overview, quality, stats, patterns, business_intel, recs],
                    report_insights = insights_of_step business_intel,
                    report_recommendations = recommendations_of_step recs,
                    data_quality = details_of quality \<rparr>)))"

section \<open>Time-series preparation\<close>

text \<open>
  \<^verbatim>\<open>ChartGenerator.prepare_time_series_data\<close> of \<^verbatim>\<open>visualizations.py\<close>
  calls the parsers of pandas in five ways; each is a parameter of the model:
  \<^item> \<open>to_datetime_of\<close>: \<open>pd.to_datetime\<close> on a series (\<open>None\<close> where it raises);
  \<^item> \<open>to_datetime_scalar\<close>: whether \<open>pd.to_datetime\<close> parses one string;
  \<^item> \<open>to_numeric_raise\<close>: whether \<open>pd.to_numeric(errors='raise')\<close> accepts a series;
  \<^item> \<open>to_numeric_coerce\<close>: \<open>pd.to_numeric(errors='coerce')\<close>, \<open>None\<close> for \<open>NaN\<close>;
  \<^item> \<open>str_of\<close>: Python's \<open>str\<close> of a cell.
\<close>

record parsers =
  to_datetime_of :: to_datetime
  to_datetime_scalar :: "string \<Rightarrow> bool"
  to_numeric_raise :: "cell list \<Rightarrow> bool"
  to_numeric_coerce :: "cell list \<Rightarrow> real option list"
  str_of :: "cell \<Rightarrow> string"

definition empty :: "dataframe \<Rightarrow> bool" where
  "empty data = (data = [] \<or> len data = 0)"

text \<open>\<open>data[col].dropna().head(10)\<close>\<close>

definition test_data :: "column \<Rightarrow> cell list" where
  "test_data c = take 10 (filter (\<lambda>v. \<not> isnull v) (cells c))"

definition has_date_word :: "string \<Rightarrow> bool" where
  "has_date_word col =
     list_ex (\<lambda>word. str_contains (lower col) word)
       [''date'', ''time'', ''month'', ''year'', ''day'', ''period'']"

text \<open>The two lists that the loop over the columns fills.\<close>

definition named_date_columns :: "parsers \<Rightarrow> dataframe \<Rightarrow> column list" where
  "named_date_columns lib data =
     filter (\<lambda>c. has_date_word (name c) \<and> 0 < length (test_data c)
                  \<and> to_datetime_of lib (test_data c) \<noteq> None) data"

definition numeric_columns :: "parsers \<Rightarrow> dataframe \<Rightarrow> column list" where
  "numeric_columns lib data =
     filter (\<lambda>c. 0 < length (test_data c) \<and> to_numeric_raise lib (test_data c)) data"

text \<open>
  The second chance of the first column, taken when no column qualified by its label and
  the frame has at least two columns: its sample parses, or (the sample is not empty and
  its parse raised) its first value, as text of at least seven characters with a hyphen,
  parses once \<open>-01\<close> is appended.
\<close>

definition first_column_fallback :: "parsers \<Rightarrow> dataframe \<Rightarrow> column list" where
  "first_column_fallback lib data =
     (case data of
        [] \<Rightarrow> []
      | first_col # rest \<Rightarrow>
          if 0 < length (test_data first_col)
          then (if to_datetime_of lib (test_data first_col) \<noteq> None then [first_col]
                else (case cells first_col of
                        [] \<Rightarrow> []
                      | v # vs \<Rightarrow>
                          let test_val = str_of lib v
                          in if 7 \<le> length test_val \<and> CHR ''-'' \<in> set test_val
                                \<and> to_datetime_scalar lib (test_val @ ''-01'')
                             then [first_col] else []))
          else [])"

definition date_columns :: "parsers \<Rightarrow> dataframe \<Rightarrow> column list" where
  "date_columns lib data =
     (if named_date_columns lib data = [] \<and> 2 \<le> length data
      then first_column_fallback lib data
      else named_date_columns lib data)"

text \<open>
  The conversion of the whole date column: directly, and when that raises, on the text of
  every cell with \<open>-01\<close> appended; \<open>None\<close> when both raise.
\<close>

definition convert_dates :: "parsers \<Rightarrow> cell list \<Rightarrow> timestamp option list option" where
  "convert_dates lib vs =
     (case to_datetime_of lib vs of
        Some parsed \<Rightarrow> Some parsed
      | None \<Rightarrow> to_datetime_of lib (map (\<lambda>v. Str (str_of lib v @ ''-01'')) vs))"

text \<open>\<open>ts_data.dropna()\<close>: the rows with a date and a value.\<close>

fun complete_rows_of :: "timestamp option list \<Rightarrow> real option list \<Rightarrow> (timestamp \<times> real) list" where
  "complete_rows_of (Some t # ts) (Some x # xs) = (t, x) # complete_rows_of ts xs"
| "complete_rows_of (t # ts) (x # xs) = complete_rows_of ts xs"
| "complete_rows_of ts xs = []"

definition time_series_frame :: "(timestamp \<times> real) list \<Rightarrow> dataframe" where
  "time_series_frame rs =
     [\<lparr> name = ''date'', dtype = Datetime64, cells = map (\<lambda>r. Ts (fst r)) rs \<rparr>,
      \<lparr> name = ''value'', dtype = Float64, cells = map (\<lambda>r. Num (snd r)) rs \<rparr>]"

text \<open>
  When the first date column is also the first numeric column, \<open>data[[date_col,
  value_col]]\<close> is a frame with that label twice; \<open>ts_data[date_col]\<close> is then a frame,
  on which both calls of \<open>pd.to_datetime\<close> raise, and the function returns \<open>None\<close>.
  \<open>sort_values\<close> orders the rows by date (the order of rows of one date is the
  library's; the model keeps their input order).
\<close>

definition prepare_time_series_data :: "parsers \<Rightarrow> dataframe \<Rightarrow> dataframe option" where
  "prepare_time_series_data lib data =
     (if empty data then None
      else case date_columns lib data of
        [] \<Rightarrow> None
      | date_col # other_dates \<Rightarrow>
          (case numeric_columns lib data of
             [] \<Rightarrow> None
           | value_col # other_values \<Rightarrow>
               if name date_col = name value_col then None
               else (case convert_dates lib (cells date_col) of
                       None \<Rightarrow> None
                     | Some dates \<Rightarrow>
                         let ts_data = complete_rows_of dates (to_numeric_coerce lib (cells value_col))
                         in if length ts_data = 0 then None
                            else Some (time_series_frame (sort_key fst ts_data)))))"

text \<open>
  The rows that survive coercion, for the frames on which the function gets that far.
\<close>

definition coerced_rows :: "parsers \<Rightarrow> dataframe \<Rightarrow> (timestamp \<times> real) list" where
  "coerced_rows lib data =
     (case (date_columns lib data, numeric_columns lib data) of
        (date_col # other_dates, value_col # other_values) \<Rightarrow>
          (case convert_dates lib (cells date_col) of
             None \<Rightarrow> []
           | Some dates \<Rightarrow> complete_rows_of dates (to_numeric_coerce lib (cells value_col)))
      | other \<Rightarrow> [])"

section \<open>Operations used to state the properties\<close>

text \<open>
  \<open>set_null data j i\<close> is the frame \<open>data\<close> with the cell of column \<open>j\<close>,
  row \<open>i\<close> replaced by a missing value, and nothing else changed.
\<close>

definition set_null :: "dataframe \<Rightarrow> nat \<Rightarrow> nat \<Rightarrow> dataframe" where
  "set_null data j i = data[j := (data ! j)\<lparr>cells := (cells (data ! j))[i := Null]\<rparr>]"

text \<open>
  A series without variation: its values, missing ones aside, are all the same (a series
  without any value included).
\<close>

definition constant_series :: "cell list \<Rightarrow> bool" where
  "constant_series vs = (case num_values vs of [] \<Rightarrow> True | x # xs \<Rightarrow> list_all (\<lambda>y. y = x) xs)"




section \<open>Example frames\<close>

text \<open>
  An instance of the date parser for the examples: it accepts a series of timestamps and
  missing values, as the library does, and rejects a series with any other value. The
  library accepts more (strings that spell dates, and numbers, which it reads as offsets
  from the epoch), so the example frames hold their dates as timestamps and put the date
  column first: the first column that the library accepts is then the first that this
  instance accepts.
\<close>

fun accepts_ts :: "cell \<Rightarrow> bool" where
  "accepts_ts Null = True"
| "accepts_ts (Ts t) = True"
| "accepts_ts v = False"

fun ts_of :: "cell \<Rightarrow> timestamp option" where
  "ts_of (Ts t) = Some t"
| "ts_of v = None"

definition to_datetime_ts :: to_datetime where
  "to_datetime_ts xs = (if list_all accepts_ts xs then Some (map ts_of xs) else None)"

definition ex_orders :: dataframe where
  "ex_orders =
     [\<lparr> name = ''order_date'', dtype = Datetime64,
        cells = [Ts (2024, 1, 0), Ts (2024, 2, 0), Ts (2024, 3, 0)] \<rparr>,
      \<lparr> name = ''revenue'', dtype = Float64,
        cells = [Num 100, Num 250, Null] \<rparr>]"

definition ex_repeated :: dataframe where
  "ex_repeated =
     [\<lparr> name = ''region'', dtype = Object, cells = [Str ''north'', Str ''south'', Str ''north''] \<rparr>,
      \<lparr> name = ''units'', dtype = Int64, cells = [Num 4, Num 7, Num 4] \<rparr>]"

definition ex_dates_only :: dataframe where
  "ex_dates_only =
     [\<lparr> name = ''signup_date'', dtype = Datetime64, cells = [Ts (2024, 1, 0), Ts (2024, 1, 5)] \<rparr>]"

definition ex_survey :: dataframe where
  "ex_survey =
     [\<lparr> name = ''respondent'', dtype = Int64, cells = [Num 1, Num 2, Num 3, Num 4, Num 5] \<rparr>,
      \<lparr> name = ''age'', dtype = Float64, cells = [Num 31, Null, Num 45, Num 28, Num 52] \<rparr>,
      \<lparr> name = ''city'', dtype = Object,
        cells = [Str ''Lyon'', Str ''Graz'', Null, Str ''Porto'', Str ''Turku''] \<rparr>,
      \<lparr> name = ''score'', dtype = Float64, cells = [Num 7, Num 9, Num 6, Null, Num 8] \<rparr>]"

text \<open>A frame of four orders with every column that step 5 looks for.\<close>

definition order_date :: column where
  "order_date = \<lparr> name = ''order_date'', dtype = Datetime64,
        cells = [Ts (2024, 1, 3), Ts (2024, 1, 9), Ts (2024, 2, 4), Ts (2024, 3, 1)] \<rparr>"

definition total_amount :: column where
  "total_amount = \<lparr> name = ''total_amount'', dtype = Float64,
        cells = [Num 120, Num 80, Num 300, Num 100] \<rparr>"

definition customer_id :: column where
  "customer_id = \<lparr> name = ''customer_id'', dtype = Int64,
        cells = [Num 1, Num 2, Num 1, Num 3] \<rparr>"

definition customer_country :: column where
  "customer_country = \<lparr> name = ''customer_country'', dtype = Object,
        cells = [Str ''DE'', Str ''FR'', Str ''DE'', Str ''AT''] \<rparr>"

definition product_name :: column where
  "product_name = \<lparr> name = ''product_name'', dtype = Object,
        cells = [Str ''lamp'', Str ''desk'', Str ''lamp'', Str ''lamp''] \<rparr>"

definition ex_sales :: dataframe where
  "ex_sales = [order_date, total_amount, customer_id, customer_country, product_name]"

text \<open>A frame with a country column and no numeric column.\<close>

definition ex_countries :: dataframe where
  "ex_countries = [customer_country]"

text \<open>The \<open>'month'\<close> column that step 4 writes for the orders.\<close>

definition sales_month :: column where
  "sales_month = \<lparr> name = ''month'', dtype = PeriodM,
     cells = [Per (2024, 1), Per (2024, 1), Per (2024, 2), Per (2024, 3)] \<rparr>"






text \<open>
  Twelve rows, one per month of 2024, whose only numeric column is constant and carries
  the label \<open>month_num\<close>.
\<close>

definition invoice_date :: column where
  "invoice_date = \<lparr> name = ''invoice_date'', dtype = Datetime64,
     cells = [Ts (2024, 1, 0), Ts (2024, 2, 0), Ts (2024, 3, 0), Ts (2024, 4, 0),
              Ts (2024, 5, 0), Ts (2024, 6, 0), Ts (2024, 7, 0), Ts (2024, 8, 0),
              Ts (2024, 9, 0), Ts (2024, 10, 0), Ts (2024, 11, 0), Ts (2024, 12, 0)] \<rparr>"

definition month_num :: column where
  "month_num = \<lparr> name = ''month_num'', dtype = Float64,
     cells = [Num 7, Num 7, Num 7, Num 7, Num 7, Num 7, Num 7, Num 7, Num 7, Num 7, Num 7, Num 7] \<rparr>"

definition ex_calendar :: dataframe where
  "ex_calendar = [invoice_date, month_num]"

definition calendar_month :: column where
  "calendar_month = \<lparr> name = ''month'', dtype = PeriodM,
     cells = [Per (2024, 1), Per (2024, 2), Per (2024, 3), Per (2024, 4),
              Per (2024, 5), Per (2024, 6), Per (2024, 7), Per (2024, 8),
              Per (2024, 9), Per (2024, 10), Per (2024, 11), Per (2024, 12)] \<rparr>"

text \<open>The column that step 4 writes over \<open>month_num\<close>, and the pattern it then finds.\<close>

definition overwritten_month_num :: column where
  "overwritten_month_num = \<lparr> name = ''month_num'', dtype = Int64,
     cells = [Num 1, Num 2, Num 3, Num 4, Num 5, Num 6, Num 7, Num 8, Num 9, Num 10, Num 11, Num 12] \<rparr>"

definition calendar_pattern :: "(cell \<times> npfloat) list" where
  "calendar_pattern =
     [(Num 1, Fin 1), (Num 2, Fin 2), (Num 3, Fin 3), (Num 4, Fin 4), (Num 5, Fin 5),
      (Num 6, Fin 6), (Num 7, Fin 7), (Num 8, Fin 8), (Num 9, Fin 9), (Num 10, Fin 10),
      (Num 11, Fin 11), (Num 12, Fin 12)]"

text \<open>
  Parsers for the examples of the time-series preparation: timestamps are dates, numbers
  are numbers, nothing else is. The library also reads a timestamp as a number, so the
  example frame puts its numeric column first: the first column that the library takes for
  numeric is then the first that this instance takes.
\<close>

fun num_of :: "cell \<Rightarrow> real option" where
  "num_of (Num r) = Some r"
| "num_of v = None"

definition example_parsers :: parsers where
  "example_parsers =
     \<lparr> to_datetime_of = to_datetime_ts,
       to_datetime_scalar = (\<lambda>s. False),
       to_numeric_raise = (\<lambda>vs. list_all (\<lambda>v. num_of v \<noteq> None) vs),
       to_numeric_coerce = map num_of,
       str_of = (\<lambda>v. case v of Str s \<Rightarrow> s | other \<Rightarrow> []) \<rparr>"

definition visit_date :: column where
  "visit_date = \<lparr> name = ''visit_date'', dtype = Datetime64,
     cells = [Ts (2024, 3, 0), Ts (2024, 1, 0), Null, Ts (2024, 2, 0)] \<rparr>"

definition visits :: column where
  "visits = \<lparr> name = ''visits'', dtype = Float64, cells = [Num 5, Num 9, Num 4, Null] \<rparr>"

definition ex_visits :: dataframe where
  "ex_visits = [visits, visit_date]"

text \<open>A frame without a date column.\<close>

definition ex_labels :: dataframe where
  "ex_labels = [\<lparr> name = ''city'', dtype = Object, cells = [Str ''Lyon'', Str ''Graz''] \<rparr>]"

text \<open>A frame whose customer column has no value.\<close>

definition ex_anonymous :: dataframe where
  "ex_anonymous =
     [\<lparr> name = ''customer_id'', dtype = Object, cells = [Null, Null] \<rparr>]"

text \<open>
  A frame whose date column has five dates and then a text that is not a date, beside a
  numeric column.
\<close>

definition ex_dirty :: dataframe where
  "ex_dirty =
     [\<lparr> name = ''shipped'', dtype = Object,
        cells = [Ts (2024, 1, 0), Ts (2024, 1, 1), Ts (2024, 1, 2), Ts (2024, 1, 3),
                 Ts (2024, 1, 4), Str ''unknown''] \<rparr>,
      \<lparr> name = ''quantity'', dtype = Int64,
        cells = [Num 2, Num 5, Num 1, Num 1, Num 3, Num 2] \<rparr>]"

section \<open>Properties\<close>

subsection \<open>Completeness score (step 2)\<close>

lemma len_set_null: "len (set_null data j i) = len data"
  by (cases data; cases j) (simp_all add: len_def set_null_def)

lemma null_count_update:
  assumes "i < length (cells c)" "cells c ! i \<noteq> Null"
  shows "null_count (c\<lparr>cells := (cells c)[i := Null]\<rparr>) = Suc (null_count c)"
proof -
  have "length (filter isnull (xs[i := Null])) = Suc (length (filter isnull xs))"
    if "i < length xs" "xs ! i \<noteq> Null" for xs
    using that
  proof (induction xs arbitrary: i)
    case Nil then show ?case by simp
  next
    case (Cons x xs)
    then show ?case by (cases i) (auto simp: isnull_def)
  qed
  with assms show ?thesis by (simp add: null_count_def)
qed

lemma null_cells_set_null:
  assumes "j < length data" "i < length (cells (data ! j))" "cells (data ! j) ! i \<noteq> Null"
  shows "null_cells (set_null data j i) = Suc (null_cells data)"
proof -
  have "sum_list (map null_count (xs[j := c'])) = Suc (sum_list (map null_count xs))"
    if "j < length xs" "null_count c' = Suc (null_count (xs ! j))" for xs c'
    using that
  proof (induction xs arbitrary: j)
    case Nil then show ?case by simp
  next
    case (Cons x xs)
    then show ?case by (cases j) auto
  qed
  with assms show ?thesis
    by (simp add: null_cells_def set_null_def null_count_update)
qed

lemma total_cells_set_null: "total_cells (set_null data j i) = total_cells data"
  by (simp add: total_cells_def len_set_null) (simp add: set_null_def)

lemma null_count_le: "null_count c \<le> length (cells c)"
  by (simp add: null_count_def)

lemma np_le_Fin: "np_le (Fin a) (Fin b) = (a \<le> b)"
  by (auto simp: np_le_def)

lemma completeness_score_Fin:
  assumes "0 < total_cells data"
  shows "completeness_score data =
    Fin ((real (total_cells data) - real (null_cells data)) / real (total_cells data) * 100)"
  using assms by (simp add: completeness_score_def)

text \<open>
  C6: for a frame with at least one row and one column, the completeness score is
  (total cells - null cells) / total cells * 100; it is exactly 100 when no cell is null; and
  replacing one non-null cell by a missing value never increases it.
\<close>

theorem completeness_score_formula:
  assumes "1 \<le> len data" and "1 \<le> length data"
  shows "completeness_score data =
           Fin ((real (total_cells data) - real (null_cells data)) / real (total_cells data) * 100)
       \<and> (null_cells data = 0 \<longrightarrow> completeness_score data = Fin 100)
       \<and> (\<forall>j i. j < length data \<and> i < length (cells (data ! j)) \<and> cells (data ! j) ! i \<noteq> Null
             \<longrightarrow> np_le (completeness_score (set_null data j i)) (completeness_score data))"
proof -
  have pos: "0 < total_cells data"
    using assms by (cases data) (auto simp: total_cells_def)
  have f: "completeness_score data =
           Fin ((real (total_cells data) - real (null_cells data)) / real (total_cells data) * 100)"
    by (rule completeness_score_Fin [OF pos])
  have full: "completeness_score data = Fin 100" if "null_cells data = 0"
    using pos that by (simp add: f)
  have mono: "np_le (completeness_score (set_null data j i)) (completeness_score data)"
    if "j < length data" "i < length (cells (data ! j))" "cells (data ! j) ! i \<noteq> Null" for j i
  proof -
    have n: "null_cells (set_null data j i) = Suc (null_cells data)"
      by (rule null_cells_set_null [OF that])
    have pos': "0 < total_cells (set_null data j i)"
      using pos by (simp add: total_cells_set_null)
    have "(real (total_cells data) - real (Suc (null_cells data))) / real (total_cells data)
          \<le> (real (total_cells data) - real (null_cells data)) / real (total_cells data)"
      using pos by (simp add: divide_right_mono)
    then have "(real (total_cells data) - real (Suc (null_cells data))) / real (total_cells data) * 100
          \<le> (real (total_cells data) - real (null_cells data)) / real (total_cells data) * 100"
      by (rule mult_right_mono) simp
    then show ?thesis
      unfolding completeness_score_Fin [OF pos'] f n total_cells_set_null np_le_Fin .
  qed
  from f full mono show ?thesis by blast
qed

theorem completeness_score_formula_witness:
  "completeness_score ex_orders = Fin (250 / 3)
   \<and> np_le (completeness_score (set_null ex_orders 1 0)) (completeness_score ex_orders)"
proof -
  have h1: "1 \<le> len ex_orders" by (simp add: ex_orders_def len_def)
  have h2: "1 \<le> length ex_orders" by (simp add: ex_orders_def)
  have c: "(1::nat) < length ex_orders \<and> 0 < length (cells (ex_orders ! 1))
           \<and> cells (ex_orders ! 1) ! 0 \<noteq> Null"
    by (simp add: ex_orders_def)
  have t: "total_cells ex_orders = 6" by (simp add: ex_orders_def total_cells_def len_def)
  have n: "null_cells ex_orders = 1"
    by (simp add: ex_orders_def null_cells_def null_count_def isnull_def)
  note T = completeness_score_formula [OF h1 h2]
  from T have a: "completeness_score ex_orders = Fin (250 / 3)"
    by (simp add: t n)
  from T c have b: "np_le (completeness_score (set_null ex_orders 1 0)) (completeness_score ex_orders)"
    by blast
  from a b show ?thesis by simp
qed

subsection \<open>Consistency score (step 2)\<close>

lemma duplicated_from_count:
  "length (filter id (duplicated_from seen rs)) = 0 \<longleftrightarrow> distinct rs \<and> set rs \<inter> set seen = {}"
  by (induction rs arbitrary: seen) auto

lemma duplicated_from_length: "length (duplicated_from seen rs) = length rs"
  by (induction rs arbitrary: seen) auto

lemma length_rows: "length (rows data) = len data"
  by (simp add: rows_def)

lemma duplicate_rows_le: "duplicate_rows data \<le> len data"
proof -
  have "length (filter id (duplicated data)) \<le> length (duplicated data)"
    by (rule length_filter_le)
  then show ?thesis
    by (simp add: duplicate_rows_def duplicated_def duplicated_from_length length_rows)
qed

lemma duplicate_rows_zero: "duplicate_rows data = 0 \<longleftrightarrow> distinct (rows data)"
  using duplicated_from_count [of "[]" "rows data"]
  by (simp add: duplicate_rows_def duplicated_def)

text \<open>
  C7: for a frame with at least one row, the consistency score is exactly 100 if and
  only if \<open>duplicated()\<close> flags no row, that is, if and only if no two rows agree in
  every column.
\<close>

theorem consistency_score_100_iff:
  assumes "1 \<le> len data"
  shows "(consistency_score data = Fin 100) = (duplicate_rows data = 0)
       \<and> (duplicate_rows data = 0) = distinct (rows data)"
proof -
  have pos: "0 < real (len data)" using assms by simp
  have le: "duplicate_rows data \<le> len data" by (rule duplicate_rows_le)
  have "consistency_score data =
          Fin ((real (len data) - real (duplicate_rows data)) / real (len data) * 100)"
    using pos le by (simp add: consistency_score_def)
  moreover have "((real (len data) - real (duplicate_rows data)) / real (len data) * 100 = 100)
                 = (duplicate_rows data = 0)"
    using pos by (simp add: field_simps)
  ultimately show ?thesis
    by (simp add: duplicate_rows_zero)
qed

theorem consistency_score_100_iff_witness:
  "consistency_score ex_repeated \<noteq> Fin 100 \<and> duplicate_rows ex_repeated = 1
   \<and> \<not> distinct (rows ex_repeated)
   \<and> consistency_score ex_orders = Fin 100 \<and> distinct (rows ex_orders)"
proof -
  have h1: "1 \<le> len ex_repeated" by (simp add: ex_repeated_def len_def)
  have h2: "1 \<le> len ex_orders" by (simp add: ex_orders_def len_def)
  have r1: "rows ex_repeated = [[Str ''north'', Num 4], [Str ''south'', Num 7], [Str ''north'', Num 4]]"
    by (simp add: ex_repeated_def rows_def row_def len_def upt_rec)
  have d1: "duplicate_rows ex_repeated = 1"
    by (simp add: duplicate_rows_def duplicated_def r1)
  have r2: "rows ex_orders = [[Ts (2024, 1, 0), Num 100], [Ts (2024, 2, 0), Num 250], [Ts (2024, 3, 0), Null]]"
    by (simp add: ex_orders_def rows_def row_def len_def upt_rec)
  have d2: "distinct (rows ex_orders)"
    by (simp add: r2)
  from consistency_score_100_iff [OF h1] consistency_score_100_iff [OF h2] d1 d2
  show ?thesis by simp
qed

subsection \<open>Recommendations (step 6)\<close>

lemma rec_categories:
  "category data_quality_rec = ''Data Quality''" "priority data_quality_rec = ''High''"
  "category performance_monitoring_rec = ''Performance Monitoring''"
  "priority performance_monitoring_rec = ''Medium''"
  "category market_expansion_rec = ''Market Expansion''"
  "priority market_expansion_rec = ''Medium''"
  "category process_automation_rec = ''Process Automation''"
  "priority process_automation_rec = ''Low''"
  by (simp_all add: data_quality_rec_def performance_monitoring_rec_def
      market_expansion_rec_def process_automation_rec_def)

lemma null_percentage_gt:
  assumes "0 < total_cells data"
  shows "np_less (Fin 10) (null_percentage data)
         = (1 / 10 < real (null_cells data) / real (total_cells data))"
proof -
  have "len data * length data \<noteq> 0" using assms by (simp add: total_cells_def)
  then have "null_percentage data = Fin (real (null_cells data) / real (total_cells data) * 100)"
    by (simp add: null_percentage_def total_cells_def)
  moreover have "(10 < real (null_cells data) / real (total_cells data) * 100)
      = (1 / 10 < real (null_cells data) / real (total_cells data))"
    using assms by (simp add: field_simps)
  ultimately show ?thesis by simp
qed

text \<open>
  C4: for a frame with at least one row and one column, the recommendation list ends
  with the constant low-priority Process Automation entry, and it holds a high-priority
  Data Quality entry if and only if more than 10% of the cells are null.
\<close>

theorem recommendations_constant_tail:
  assumes "1 \<le> len data" and "1 \<le> length data"
  shows "recommendations to_dt data \<noteq> []
       \<and> last (recommendations to_dt data) = process_automation_rec
       \<and> category process_automation_rec = ''Process Automation''
       \<and> priority process_automation_rec = ''Low''
       \<and> ((\<exists>r \<in> set (recommendations to_dt data). category r = ''Data Quality'' \<and> priority r = ''High'')
            = (1 / 10 < real (null_cells data) / real (total_cells data)))"
proof -
  have pos: "0 < total_cells data"
    using assms by (cases data) (auto simp: total_cells_def)
  have a: "recommendations to_dt data \<noteq> []"
    by (simp add: recommendations_def)
  have b: "last (recommendations to_dt data) = process_automation_rec"
    by (simp add: recommendations_def)
  have c: "(\<exists>r \<in> set (recommendations to_dt data). category r = ''Data Quality'' \<and> priority r = ''High'')
            = np_less (Fin 10) (null_percentage data)"
    by (auto simp: recommendations_def rec_categories)
  show ?thesis
    using a b c by (simp add: rec_categories null_percentage_gt [OF pos])
qed

theorem recommendations_constant_tail_witness:
  "last (recommendations to_datetime_ts ex_orders) = process_automation_rec
   \<and> (\<exists>r \<in> set (recommendations to_datetime_ts ex_orders).
         category r = ''Data Quality'' \<and> priority r = ''High'')
   \<and> \<not> (\<exists>r \<in> set (recommendations to_datetime_ts ex_repeated).
         category r = ''Data Quality'' \<and> priority r = ''High'')"
proof -
  have h1: "1 \<le> len ex_orders" by (simp add: ex_orders_def len_def)
  have h2: "1 \<le> length ex_orders" by (simp add: ex_orders_def)
  have h3: "1 \<le> len ex_repeated" by (simp add: ex_repeated_def len_def)
  have h4: "1 \<le> length ex_repeated" by (simp add: ex_repeated_def)
  have t: "total_cells ex_orders = 6" by (simp add: ex_orders_def total_cells_def len_def)
  have n: "null_cells ex_orders = 1"
    by (simp add: ex_orders_def null_cells_def null_count_def isnull_def)
  have n': "null_cells ex_repeated = 0"
    by (simp add: ex_repeated_def null_cells_def null_count_def isnull_def)
  from recommendations_constant_tail [OF h1 h2, of to_datetime_ts]
       recommendations_constant_tail [OF h3 h4, of to_datetime_ts]
  show ?thesis by (simp add: t n n')
qed

subsection \<open>Strengths and issues (step 2)\<close>

text \<open>
  A frame of 20 cells with 3 missing has completeness exactly 85: the source tests
  \<open>completeness_score > 85\<close>, so the frame gets the missing-values issue and no strength.
\<close>

theorem completeness_85_counterexample:
  "completeness_score ex_survey = Fin 85
   \<and> ''Good data completeness'' \<notin> set (strengths ex_survey)
   \<and> Significant_missing_values \<in> set (issues ex_survey)"
proof -
  have t: "total_cells ex_survey = 20" by (simp add: ex_survey_def total_cells_def len_def)
  have n: "null_cells ex_survey = 3"
    by (simp add: ex_survey_def null_cells_def null_count_def isnull_def)
  have c: "completeness_score ex_survey = Fin 85"
    by (simp add: completeness_score_def t n)
  show ?thesis by (simp add: c strengths_def issues_def)
qed

text \<open>
  C5 (as amended): a completeness score above 95 yields the excellent strength, a score
  above 85 and at most 95 the good strength, and a score of 85 or less the missing-values
  issue.
\<close>

theorem completeness_buckets:
  assumes "completeness_score data = Fin s"
  shows "(95 < s \<longrightarrow> strengths data = [''Excellent data completeness'']
                    \<and> Significant_missing_values \<notin> set (issues data))
       \<and> (85 < s \<and> s \<le> 95 \<longrightarrow> strengths data = [''Good data completeness'']
                    \<and> Significant_missing_values \<notin> set (issues data))
       \<and> (s \<le> 85 \<longrightarrow> strengths data = [] \<and> Significant_missing_values \<in> set (issues data))"
  using assms by (simp add: strengths_def issues_def)

theorem completeness_buckets_witness:
  "strengths ex_repeated = [''Excellent data completeness'']
   \<and> strengths ex_orders = [] \<and> Significant_missing_values \<in> set (issues ex_orders)"
proof -
  have c1: "completeness_score ex_repeated = Fin 100"
    by (simp add: completeness_score_def ex_repeated_def total_cells_def len_def
        null_cells_def null_count_def isnull_def)
  have c2: "completeness_score ex_orders = Fin (250 / 3)"
    by (simp add: completeness_score_def ex_orders_def total_cells_def len_def
        null_cells_def null_count_def isnull_def)
  from completeness_buckets [OF c1] completeness_buckets [OF c2]
  show ?thesis by simp
qed

subsection \<open>Performance monitoring (step 6)\<close>

text \<open>
  A frame whose only column holds dates has a date column and no numeric column: the
  source looks for date columns only under \<open>if len(numeric_cols) > 0\<close>, and emits no
  Performance Monitoring entry.
\<close>

theorem performance_monitoring_counterexample:
  "date_cols to_datetime_ts ex_dates_only \<noteq> []
   \<and> \<not> (\<exists>r \<in> set (recommendations to_datetime_ts ex_dates_only).
          category r = ''Performance Monitoring'')"
  by (simp add: date_cols_def head_def to_datetime_ts_def ex_dates_only_def
      recommendations_def numeric_cols_def columns_def rec_categories
      null_percentage_def null_cells_def null_count_def isnull_def len_def)

text \<open>
  C3 (as amended): the recommendations hold the medium-priority Performance Monitoring
  entry exactly when the frame has a column of a numeric dtype and a column whose first
  rows parse as dates.
\<close>

theorem performance_monitoring_iff:
  "(\<exists>r \<in> set (recommendations to_dt data).
       category r = ''Performance Monitoring'' \<and> priority r = ''Medium'')
   = (numeric_cols data \<noteq> [] \<and> date_cols to_dt data \<noteq> [])"
  by (auto simp: recommendations_def rec_categories)

theorem performance_monitoring_iff_witness:
  "numeric_cols ex_orders \<noteq> [] \<and> date_cols to_datetime_ts ex_orders \<noteq> []
   \<and> (\<exists>r \<in> set (recommendations to_datetime_ts ex_orders).
       category r = ''Performance Monitoring'' \<and> priority r = ''Medium'')"
proof -
  have a: "numeric_cols ex_orders \<noteq> []"
    by (simp add: numeric_cols_def ex_orders_def)
  have b: "date_cols to_datetime_ts ex_orders \<noteq> []"
    by (simp add: date_cols_def head_def to_datetime_ts_def ex_orders_def)
  from performance_monitoring_iff [of to_datetime_ts ex_orders] a b
  show ?thesis by simp
qed

subsection \<open>Insights and the report (step 5 and the six steps)\<close>

lemmas series_eval = isnull_def nunique_def series_count_def series_sum_def series_mean_def
  mean_of_def series_quantile_def quantile_of_def np_le_def groupby_def group_keys_def
  group_sizes_def group_sums_def

lemma sales_names:
  "name order_date = ''order_date''" "name total_amount = ''total_amount''"
  "name customer_id = ''customer_id''" "name customer_country = ''customer_country''"
  "name product_name = ''product_name''"
  by (simp_all add: order_date_def total_amount_def customer_id_def customer_country_def
      product_name_def)

lemma sales_dtypes:
  "dtype order_date = Datetime64" "dtype total_amount = Float64"
  "dtype customer_id = Int64" "dtype customer_country = Object"
  "dtype product_name = Object"
  by (simp_all add: order_date_def total_amount_def customer_id_def customer_country_def
      product_name_def)

lemma sales_cells:
  "cells order_date = [Ts (2024, 1, 3), Ts (2024, 1, 9), Ts (2024, 2, 4), Ts (2024, 3, 1)]"
  "cells total_amount = [Num 120, Num 80, Num 300, Num 100]"
  "cells customer_id = [Num 1, Num 2, Num 1, Num 3]"
  "cells customer_country = [Str ''DE'', Str ''FR'', Str ''DE'', Str ''AT'']"
  "cells product_name = [Str ''lamp'', Str ''desk'', Str ''lamp'', Str ''lamp'']"
  by (simp_all add: order_date_def total_amount_def customer_id_def customer_country_def
      product_name_def)

lemma ex_sales_columns:
  "columns ex_sales = [''order_date'', ''total_amount'', ''customer_id'', ''customer_country'', ''product_name'']"
  by (simp add: ex_sales_def columns_def sales_names)

lemma ex_sales_getitem:
  "getitem ex_sales ''customer_id'' = Inr customer_id"
  "getitem ex_sales ''customer_country'' = Inr customer_country"
  "getitem ex_sales ''product_name'' = Inr product_name"
  by (simp_all add: ex_sales_def getitem_def sales_names)

lemma ex_sales_len: "len ex_sales = 4"
  by (simp add: ex_sales_def len_def sales_cells)

lemma ex_sales_numeric: "numeric_cols ex_sales = [total_amount, customer_id]"
  by (simp add: numeric_cols_def ex_sales_def sales_dtypes)

lemma revenue_cols_ex_sales: "revenue_cols ex_sales = [total_amount]"
  by (simp add: revenue_cols_def ex_sales_numeric sales_names lower_def lower_char_def)

lemma revenue_insights_ex_sales:
  "revenue_insights ex_sales =
     [Total_revenue ''total amount'' 600, Average_transaction (Fin 150), High_value_transactions 1]"
  by (simp add: revenue_insights_def revenue_cols_ex_sales sales_cells sales_names series_eval
      replace_underscore_def)

lemma customer_insights_ex_sales:
  "customer_insights ex_sales = Inr [Unique_customers 3, Transactions_per_customer (4 / 3)]"
  by (simp add: customer_insights_def ex_sales_columns ex_sales_getitem sales_cells ex_sales_len
      bind_err_def series_eval)

lemma geographic_insights_ex_sales:
  "geographic_insights ex_sales =
     Inr [Top_market_by_volume (Str ''DE''), Top_market_by_revenue (Str ''DE'')]"
  by (simp add: geographic_insights_def revenue_cols_ex_sales ex_sales_columns ex_sales_getitem
      sales_cells bind_err_def series_eval)

lemma product_insights_ex_sales:
  "product_insights ex_sales = Inr [Most_popular_product (Str ''lamp'')]"
  by (simp add: product_insights_def ex_sales_columns ex_sales_getitem sales_cells
      bind_err_def series_eval)

theorem insights_exceed_five:
  "insights ex_sales =
     Inr [Total_revenue ''total amount'' 600, Average_transaction (Fin 150),
          High_value_transactions 1, Unique_customers 3, Transactions_per_customer (4 / 3),
          Top_market_by_volume (Str ''DE''), Top_market_by_revenue (Str ''DE''),
          Most_popular_product (Str ''lamp'')]"
  by (simp add: insights_def revenue_insights_ex_sales customer_insights_ex_sales
      geographic_insights_ex_sales product_insights_ex_sales bind_err_def)

lemma ex_sales_date_cols: "date_cols to_datetime_ts ex_sales = [order_date]"
  by (simp add: date_cols_def ex_sales_def sales_cells head_def to_datetime_ts_def)

lemma ex_sales_temporal_frame:
  "temporal_frame to_datetime_ts ex_sales order_date = Inr (ex_sales @ [sales_month])"
  by (simp add: temporal_frame_def to_datetime_ts_def sort_values_def bind_err_def getitem_def
      setitem_def columns_def take_rows_def sort_order_def isnull_def
      ex_sales_def order_date_def total_amount_def customer_id_def customer_country_def
      product_name_def sales_month_def upt_rec)

lemma ex_sales_monthly:
  "monthly_data (ex_sales @ [sales_month]) ''total_amount'' =
     Inr [(Per (2024, 1), Fin 200), (Per (2024, 2), Fin 300), (Per (2024, 3), Fin 100)]"
  by (simp add: monthly_data_def getitem_def bind_err_def ex_sales_def sales_names sales_dtypes
      sales_cells sales_month_def series_eval)

lemma ex_sales_patterns:
  "pattern_details to_datetime_ts ex_sales =
     Inr \<lparr> temporal_patterns = [], seasonal_patterns = [],
           growth_trends = [growth_trend ''total_amount''
              [(Per (2024, 1), Fin 200), (Per (2024, 2), Fin 300), (Per (2024, 3), Fin 100)]],
           anomalies = [] \<rparr>"
  by (simp add: pattern_details_def ex_sales_date_cols ex_sales_numeric ex_sales_temporal_frame
      ex_sales_monthly sales_names bind_err_def)

lemma analyze_Inr:
  assumes "pattern_details to_dt data = Inr p" and "insights data = Inr found"
  shows "\<exists>r. analyze_data_step_by_step corr to_dt data prompt = Inr r
            \<and> map step_number (steps r) = [1, 2, 3, 4, 5, 6]
            \<and> report_insights r = found
            \<and> report_recommendations r = recommendations to_dt data"
  using assms
  by (simp add: analyze_data_step_by_step_def step_4_pattern_detection_def
      step_5_business_intelligence_def step_6_recommendations_def step_1_data_overview_def
      step_2_data_quality_def step_3_statistical_analysis_def bind_err_def Let_def)

lemma analyze_Inl_insights:
  assumes "pattern_details to_dt data = Inr p" and "insights data = Inl e"
  shows "analyze_data_step_by_step corr to_dt data prompt = Inl e"
  using assms
  by (simp add: analyze_data_step_by_step_def step_4_pattern_detection_def
      step_5_business_intelligence_def bind_err_def Let_def)

text \<open>
  C2: the claim caps the insight list at five. On the four orders every block of step 5
  fires and the list, which the report surfaces unchanged, has eight entries: the step has
  no truncation (the sibling \<^verbatim>\<open>generate_business_insights\<close> ends with
  \<^verbatim>\<open>return insights[:5]\<close>).
\<close>

theorem report_insights_exceed_five:
  "\<exists>r. analyze_data_step_by_step corr to_datetime_ts ex_sales prompt = Inr r
       \<and> report_insights r =
           [Total_revenue ''total amount'' 600, Average_transaction (Fin 150),
            High_value_transactions 1, Unique_customers 3, Transactions_per_customer (4 / 3),
            Top_market_by_volume (Str ''DE''), Top_market_by_revenue (Str ''DE''),
            Most_popular_product (Str ''lamp'')]
       \<and> length (report_insights r) = 8"
  using analyze_Inr [OF ex_sales_patterns insights_exceed_five, where prompt = prompt and corr = corr]
  by auto

lemma ex_countries_patterns: "pattern_details to_dt ex_countries = Inr no_patterns"
  by (simp add: pattern_details_def numeric_cols_def ex_countries_def sales_dtypes split: list.split)

lemma ex_countries_insights: "insights ex_countries = Inl IndexError"
  by (simp add: insights_def customer_insights_def geographic_insights_def columns_def
      ex_countries_def sales_names getitem_def bind_err_def revenue_cols_def numeric_cols_def
      sales_dtypes sales_cells series_eval)

text \<open>
  C1: the claim says the analysis returns six steps and never raises. On a frame with a
  \<open>customer_country\<close> column and no revenue column, step 5 evaluates
  \<open>revenue_cols[0]\<close> on an empty list and the call ends in \<open>IndexError\<close>,
  whatever the correlation matrix, the date parser and the prompt.
\<close>

theorem analyze_raises_without_revenue_column:
  "analyze_data_step_by_step corr to_dt ex_countries prompt = Inl IndexError"
  by (rule analyze_Inl_insights [OF ex_countries_patterns ex_countries_insights])

text \<open>
  Two more ways in which the call raises: a customer column without any value
  (\<open>len(data) / unique_customers\<close> with \<open>unique_customers = 0\<close>), and a date column
  whose first five rows parse and a later row does not (step 4 parses the sample inside
  a \<open>try\<close> and the whole column outside it).
\<close>

lemma analyze_raises_without_customers:
  "analyze_data_step_by_step corr to_datetime_ts ex_anonymous prompt = Inl ZeroDivisionError"
proof -
  have p: "pattern_details to_datetime_ts ex_anonymous = Inr no_patterns"
    by (simp add: pattern_details_def numeric_cols_def ex_anonymous_def split: list.split)
  have i: "insights ex_anonymous = Inl ZeroDivisionError"
    by (simp add: insights_def customer_insights_def columns_def ex_anonymous_def getitem_def
        bind_err_def nunique_def isnull_def)
  show ?thesis by (rule analyze_Inl_insights [OF p i])
qed

lemma analyze_raises_on_late_parse_failure:
  "date_cols to_datetime_ts ex_dirty \<noteq> []
   \<and> analyze_data_step_by_step corr to_datetime_ts ex_dirty prompt = Inl ValueError"
proof -
  have d: "date_cols to_datetime_ts ex_dirty = [ex_dirty ! 0]"
    by (simp add: date_cols_def head_def to_datetime_ts_def ex_dirty_def)
  have n: "numeric_cols ex_dirty = [ex_dirty ! 1]"
    by (simp add: numeric_cols_def ex_dirty_def)
  have t: "temporal_frame to_datetime_ts ex_dirty (ex_dirty ! 0) = Inl ValueError"
    by (simp add: temporal_frame_def to_datetime_ts_def ex_dirty_def)
  have "pattern_details to_datetime_ts ex_dirty = Inl ValueError"
    by (simp add: pattern_details_def d n t bind_err_def)
  then have "analyze_data_step_by_step corr to_datetime_ts ex_dirty prompt = Inl ValueError"
    by (simp add: analyze_data_step_by_step_def step_4_pattern_detection_def bind_err_def Let_def)
  with d show ?thesis by simp
qed

text \<open>Step 5 appends at most eight insights, and nothing shortens the list.\<close>

lemma insights_length:
  assumes "insights data = Inr found"
  shows "length found \<le> 8"
proof -
  have r: "length (revenue_insights data) \<le> 3"
    by (simp add: revenue_insights_def split: list.split)
  have c: "length xs \<le> 2" if "customer_insights data = Inr xs" for xs
    using that by (auto simp: customer_insights_def bind_err_def Let_def split: if_splits sum.splits)
  have g: "length xs \<le> 2" if "geographic_insights data = Inr xs" for xs
    using that
    by (auto simp: geographic_insights_def bind_err_def
        split: if_splits sum.splits option.splits list.splits)
  have p: "length xs \<le> 1" if "product_insights data = Inr xs" for xs
    using that
    by (auto simp: product_insights_def bind_err_def split: if_splits sum.splits option.splits)
  from assms obtain xs ys zs where
    "customer_insights data = Inr xs" "geographic_insights data = Inr ys"
    "product_insights data = Inr zs" "found = revenue_insights data @ xs @ ys @ zs"
    by (auto simp: insights_def bind_err_def split: sum.splits)
  with r c g p show ?thesis by fastforce
qed

subsection \<open>Strong correlations (step 3)\<close>






lemma constant_series_values:
  assumes "constant_series vs"
  obtains v where "set (num_values vs) \<subseteq> {v}"
  using assms
  by (cases "num_values vs") (auto simp: constant_series_def list_all_iff)








subsection \<open>Seasonality (step 4)\<close>

lemma calendar_cols:
  "name invoice_date = ''invoice_date''" "name month_num = ''month_num''"
  "name calendar_month = ''month''"
  "dtype invoice_date = Datetime64" "dtype month_num = Float64" "dtype calendar_month = PeriodM"
  by (simp_all add: invoice_date_def month_num_def calendar_month_def)

lemma calendar_date_cols: "date_cols to_datetime_ts ex_calendar = [invoice_date]"
  by (simp add: date_cols_def ex_calendar_def head_def to_datetime_ts_def
      invoice_date_def month_num_def)

lemma calendar_numeric_cols: "numeric_cols ex_calendar = [month_num]"
  by (simp add: numeric_cols_def ex_calendar_def calendar_cols)

lemma calendar_sort_order:
  "sort_order (cells invoice_date) = [0, 1, 2, 3, 4, 5, 6, 7, 8, 9, 10, 11]"
  by (simp add: sort_order_def invoice_date_def isnull_def upt_rec)

lemma calendar_temporal_frame:
  "temporal_frame to_datetime_ts ex_calendar invoice_date = Inr [invoice_date, month_num, calendar_month]"
proof -
  have p: "to_datetime_ts (cells invoice_date) = Some (map ts_of (cells invoice_date))"
    by (simp add: to_datetime_ts_def invoice_date_def)
  have tt: "map ts_cell (map ts_of (cells invoice_date)) = cells invoice_date"
    by (simp add: invoice_date_def)
  have s: "setitem ex_calendar ''invoice_date'' Datetime64 (cells invoice_date) = ex_calendar"
    by (simp add: setitem_def columns_def ex_calendar_def invoice_date_def month_num_def)
  have t: "take_rows [0, 1, 2, 3, 4, 5, 6, 7, 8, 9, 10, 11] ex_calendar = ex_calendar"
    by (simp add: take_rows_def ex_calendar_def invoice_date_def month_num_def)
  have g: "getitem ex_calendar ''invoice_date'' = Inr invoice_date"
    by (simp add: getitem_def ex_calendar_def calendar_cols)
  have m: "setitem ex_calendar ''month'' PeriodM (map to_period (cells invoice_date))
           = [invoice_date, month_num, calendar_month]"
    by (simp add: setitem_def columns_def ex_calendar_def calendar_cols)
       (simp add: invoice_date_def calendar_month_def)
  show ?thesis
    by (simp only: temporal_frame_def p option.case calendar_cols tt s sort_values_def g
        bind_err_def sum.case calendar_sort_order t m)
qed

lemma calendar_getitem:
  "getitem [invoice_date, month_num, calendar_month] ''month'' = Inr calendar_month"
  "getitem [invoice_date, month_num, calendar_month] ''month_num'' = Inr month_num"
  "getitem [invoice_date, month_num, calendar_month] ''invoice_date'' = Inr invoice_date"
  by (simp_all add: getitem_def calendar_cols)

lemma calendar_monthly:
  "monthly_data [invoice_date, month_num, calendar_month] ''month_num'' =
     Inr (map (\<lambda>k. (k, Fin 7)) (cells calendar_month))"
  by (simp add: monthly_data_def calendar_getitem bind_err_def calendar_cols)
     (simp add: group_sums_def groupby_def group_keys_def isnull_def series_sum_def
        calendar_month_def month_num_def)

lemma calendar_seasonal_pattern:
  "seasonal_pattern [invoice_date, month_num, calendar_month] ''invoice_date'' ''month_num''
     = Inr calendar_pattern"
proof -
  have m: "map dt_month (cells invoice_date) = cells overwritten_month_num"
    by (simp add: invoice_date_def overwritten_month_num_def)
  have d: "month_dtype (cells overwritten_month_num) = Int64"
    by (simp add: month_dtype_def overwritten_month_num_def isnull_def)
  have s: "setitem [invoice_date, month_num, calendar_month] ''month_num'' Int64
             (cells overwritten_month_num)
           = [invoice_date, overwritten_month_num, calendar_month]"
    by (simp add: setitem_def columns_def calendar_cols)
       (simp add: month_num_def overwritten_month_num_def)
  have g: "getitem [invoice_date, overwritten_month_num, calendar_month] ''month_num''
           = Inr overwritten_month_num"
    by (simp add: getitem_def calendar_cols overwritten_month_num_def)
  have n: "is_number (dtype overwritten_month_num)"
    by (simp add: overwritten_month_num_def)
  have gm: "group_means (cells overwritten_month_num) (cells overwritten_month_num)
            = calendar_pattern"
    by (simp add: group_means_def groupby_def group_keys_def isnull_def series_mean_def mean_of_def
        overwritten_month_num_def calendar_pattern_def)
  show ?thesis
    by (simp only: seasonal_pattern_def calendar_getitem bind_err_def sum.case Let_def m d s g n
        gm if_True)
qed

lemma calendar_strength: "seasonal_strength calendar_pattern = Fin (sqrt 13 / (13 / 2))"
proof -
  have "np_std (map snd calendar_pattern) = Fin (sqrt 13)"
    by (simp add: np_std_def skipna_def std_of_def calendar_pattern_def power2_eq_square)
  moreover have "np_mean (map snd calendar_pattern) = Fin (13 / 2)"
    by (simp add: np_mean_def skipna_def calendar_pattern_def)
  ultimately show ?thesis by (simp add: seasonal_strength_def)
qed

lemma calendar_strength_above: "np_less (Fin (1 / 10)) (seasonal_strength calendar_pattern)"
proof -
  have "(3::real) < sqrt 13"
    by (rule real_less_rsqrt) simp
  then have "(1 / 10 :: real) < sqrt 13 / (13 / 2)"
    by (simp add: field_simps)
  then show ?thesis by (simp add: calendar_strength)
qed

lemma calendar_records:
  "seasonal_records ''month_num'' calendar_pattern =
     Inr [\<lparr> metric = ''month_num'', strength = seasonal_strength calendar_pattern,
            peak_month = Num 12, low_month = Num 1 \<rparr>]"
proof -
  have "idxmax calendar_pattern = Some (Num 12)" "idxmin calendar_pattern = Some (Num 1)"
    by (simp_all add: calendar_pattern_def)
  then show ?thesis
    by (simp add: seasonal_records_def calendar_strength_above)
qed

text \<open>
  C9: the claim says a constant-valued series of twelve months yields no seasonality
  record. The numeric column of this frame is constant, its twelve monthly sums are all 7,
  and the step still emits a record: \<open>temp_data['month_num'] = ...\<close> overwrites the value
  column, which carries that label, with the month numbers, and the seasonal pattern is
  then computed from the month numbers (strength \<open>sqrt 13 / 6.5\<close>, peak 12, low 1).
\<close>

theorem seasonality_on_constant_series:
  "constant_series (cells month_num)
   \<and> numeric_cols ex_calendar = [month_num]
   \<and> (\<exists>p. pattern_details to_datetime_ts ex_calendar = Inr p
          \<and> seasonal_patterns p =
               [\<lparr> metric = ''month_num'', strength = Fin (sqrt 13 / (13 / 2)),
                  peak_month = Num 12, low_month = Num 1 \<rparr>])"
proof -
  have c: "constant_series (cells month_num)"
    by (simp add: constant_series_def month_num_def)
  have l: "12 \<le> length (map (\<lambda>k. (k, Fin 7)) (cells calendar_month))"
    by (simp add: calendar_month_def)
  have "\<exists>p. pattern_details to_datetime_ts ex_calendar = Inr p
          \<and> seasonal_patterns p =
               [\<lparr> metric = ''month_num'', strength = seasonal_strength calendar_pattern,
                  peak_month = Num 12, low_month = Num 1 \<rparr>]"
    using l
    by (simp add: pattern_details_def calendar_date_cols calendar_numeric_cols
        calendar_temporal_frame calendar_cols calendar_monthly calendar_seasonal_pattern
        calendar_records bind_err_def del: length_map)
  with c calendar_numeric_cols show ?thesis
    by (simp add: calendar_strength)
qed

lemma num_values_iff: "r \<in> set (num_values vs) \<longleftrightarrow> Num r \<in> set vs"
  by (induction vs rule: num_values.induct) auto

lemma mean_of_constant:
  assumes "set xs \<subseteq> {c}"
  shows "mean_of xs = Fin c \<or> mean_of xs = NaN"
proof (cases "xs = []")
  case True
  then show ?thesis by (simp add: mean_of_def np_inf_def)
next
  case False
  have xs: "xs = replicate (length xs) c"
    using assms by (induction xs) auto
  have "sum_list xs = real (length xs) * c"
    by (subst xs) (simp add: sum_list_replicate)
  with False show ?thesis by (simp add: mean_of_def)
qed

lemma group_means_constant:
  assumes "set (num_values vals) \<subseteq> {c}" and "x \<in> set (map snd (group_means keys vals))"
  shows "x = Fin c \<or> x = NaN"
proof -
  from assms(2) obtain k where
    x: "x = series_mean (map snd (filter (\<lambda>kv. fst kv = k) (zip keys vals)))"
    by (auto simp: group_means_def groupby_def)
  define g where "g = map snd (filter (\<lambda>kv. fst kv = k) (zip keys vals))"
  have sub: "set g \<subseteq> set vals"
    unfolding g_def by (auto dest: set_zip_rightD)
  have "set (num_values g) \<subseteq> {c}"
  proof
    fix r assume "r \<in> set (num_values g)"
    then have "Num r \<in> set g" by (simp add: num_values_iff)
    with sub have "Num r \<in> set vals" by blast
    then have "r \<in> set (num_values vals)" by (simp add: num_values_iff)
    with assms(1) show "r \<in> {c}" by blast
  qed
  then show ?thesis
    unfolding x series_mean_def g_def [symmetric] by (rule mean_of_constant)
qed

lemma skipna_flat:
  assumes "\<forall>x \<in> set xs. x = Fin c \<or> x = NaN"
  shows "skipna xs = replicate (length (skipna xs)) (Fin c)"
  using assms by (induction xs) (auto simp: skipna_def)

lemma fold_np_add_replicate:
  "fold (\<lambda>y acc. np_add acc y) (replicate n (Fin c)) (Fin a) = Fin (a + real n * c)"
  by (induction n arbitrary: a) (simp_all add: algebra_simps)

lemma fin_values_replicate: "fin_values (replicate n (Fin c)) = replicate n c"
  by (induction n) simp_all

lemma std_of_replicate: "std_of (replicate n c) = (if n < 2 then NaN else Fin 0)"
proof (cases "n < 2")
  case True
  then show ?thesis by (simp add: std_of_def)
next
  case False
  then have "sum_list (replicate n c) / real n = c"
    by (simp add: sum_list_replicate)
  then show ?thesis
    using False by (simp add: std_of_def Let_def sum_list_replicate)
qed

lemma flat_strength:
  assumes "\<forall>x \<in> set (map snd pattern). x = Fin c \<or> x = NaN"
  shows "\<not> np_less (Fin (1 / 10)) (seasonal_strength pattern)"
proof -
  define n where "n = length (skipna (map snd pattern))"
  have s: "skipna (map snd pattern) = replicate n (Fin c)"
    unfolding n_def by (rule skipna_flat [OF assms])
  have all: "list_all is_fin (replicate n (Fin c))"
    by (simp add: list_all_iff)
  have sd: "np_std (map snd pattern) = (if n < 2 then NaN else Fin 0)"
    by (simp only: np_std_def Let_def s all if_True fin_values_replicate std_of_replicate)
  have mn: "np_mean (map snd pattern) = np_div (Fin (real n * c)) (Fin (real n))"
    unfolding np_mean_def Let_def s fold_np_add_replicate by simp
  show ?thesis
  proof (cases "n < 2")
    case True
    then show ?thesis by (simp add: seasonal_strength_def sd)
  next
    case False
    then have "np_mean (map snd pattern) = Fin c"
      by (simp add: mn)
    then show ?thesis
      using False by (simp add: seasonal_strength_def sd np_inf_def)
  qed
qed

lemma flat_pattern_no_record:
  assumes "\<forall>x \<in> set (map snd pattern). x = Fin c \<or> x = NaN"
  shows "seasonal_records value_col pattern = Inr []"
  using flat_strength [OF assms] by (simp add: seasonal_records_def)

lemma seasonal_records_rule:
  assumes "seasonal_records value_col pattern = Inr records"
  shows "(records \<noteq> []) = np_less (Fin (1 / 10)) (seasonal_strength pattern)"
    and "records \<noteq> [] \<Longrightarrow>
           \<exists>peak low. idxmax pattern = Some peak \<and> idxmin pattern = Some low
             \<and> records = [\<lparr> metric = value_col, strength = seasonal_strength pattern,
                             peak_month = peak, low_month = low \<rparr>]"
  using assms by (auto simp: seasonal_records_def split: if_splits option.splits)

lemma find_map_other:
  assumes "\<And>c. name (f c) = name c" and "\<And>c. name c = label' \<Longrightarrow> f c = c"
  shows "find (\<lambda>c. name c = label') (map f data) = find (\<lambda>c. name c = label') data"
  using assms by (induction data) auto

lemma find_snoc_other:
  "\<not> P x \<Longrightarrow> find P (xs @ [x]) = find P xs"
  by (induction xs) auto

lemma getitem_setitem_other:
  assumes "label \<noteq> label'"
  shows "getitem (setitem data label d vs) label' = getitem data label'"
proof (cases "label \<in> set (columns data)")
  case True
  have "find (\<lambda>c. name c = label')
          (map (\<lambda>c. if name c = label then c\<lparr>dtype := d, cells := vs\<rparr> else c) data)
        = find (\<lambda>c. name c = label') data"
    using assms by (intro find_map_other) auto
  with True show ?thesis by (simp add: getitem_def setitem_def)
next
  case False
  then show ?thesis
    using assms by (simp add: getitem_def setitem_def find_snoc_other)
qed

lemma getitem_setitem_same:
  assumes "label \<in> set (columns data)"
  shows "\<exists>c. getitem (setitem data label d vs) label = Inr c \<and> cells c = vs"
proof -
  have "\<exists>c. find (\<lambda>c. name c = label)
          (map (\<lambda>c. if name c = label then c\<lparr>dtype := d, cells := vs\<rparr> else c) data) = Some c
          \<and> cells c = vs"
    using assms by (induction data) (auto simp: columns_def)
  with assms show ?thesis by (auto simp: getitem_def setitem_def)
qed

lemma getitem_take_rows:
  "getitem (take_rows idx data) label =
     (case getitem data label of
        Inl e \<Rightarrow> Inl e
      | Inr c \<Rightarrow> Inr (c\<lparr>cells := map (\<lambda>i. cells c ! i) idx\<rparr>))"
  by (induction data) (auto simp: getitem_def take_rows_def)

lemma getitem_member:
  assumes "c \<in> set data" and "distinct (columns data)"
  shows "getitem data (name c) = Inr c"
proof -
  have "find (\<lambda>c'. name c' = name c) data = Some c"
    using assms by (induction data) (auto simp: columns_def)
  then show ?thesis by (simp add: getitem_def)
qed

lemma set_sort_order: "set (sort_order keys) = {0 ..< length keys}"
  by (simp add: sort_order_def)

lemma constant_series_subset:
  assumes "constant_series ys" and "set xs \<subseteq> set ys"
  obtains c where "set (num_values xs) \<subseteq> {c}"
proof -
  from assms(1) obtain c where c: "set (num_values ys) \<subseteq> {c}" by (rule constant_series_values)
  have "set (num_values xs) \<subseteq> {c}"
  proof
    fix r assume "r \<in> set (num_values xs)"
    then have "Num r \<in> set xs" by (simp add: num_values_iff)
    with assms(2) have "Num r \<in> set ys" by blast
    then have "r \<in> set (num_values ys)" by (simp add: num_values_iff)
    with c show "r \<in> {c}" by blast
  qed
  then show ?thesis by (rule that)
qed

text \<open>
  The value column as step 4 reads it back from its working copy, when no write of the
  step touches its label: the input column, with its rows in sorted order.
\<close>

lemma temporal_frame_value_column:
  assumes tf: "temporal_frame to_dt data date_column = Inr temp_data"
    and dc: "date_column \<in> set data" and vc: "value_column \<in> set data"
    and distinct: "distinct (columns data)"
    and wf: "\<forall>c \<in> set data. length (cells c) = len data"
    and parser: "\<forall>xs r. to_dt xs = Some r \<longrightarrow> length r = length xs"
    and ne: "name value_column \<noteq> name date_column" "name value_column \<noteq> ''month''"
  shows "\<exists>v. getitem temp_data (name value_column) = Inr v
           \<and> dtype v = dtype value_column \<and> set (cells v) \<subseteq> set (cells value_column)"
proof -
  from tf obtain parsed where p: "to_dt (cells date_column) = Some parsed"
    by (auto simp: temporal_frame_def split: option.splits)
  let ?d1 = "setitem data (name date_column) Datetime64 (map ts_cell parsed)"
  have lp: "length parsed = len data"
    using p parser wf dc by auto
  have "name date_column \<in> set (columns data)"
    using dc by (auto simp: columns_def)
  then obtain c1 where c1: "getitem ?d1 (name date_column) = Inr c1" "cells c1 = map ts_cell parsed"
    using getitem_setitem_same by blast
  let ?idx = "sort_order (cells c1)"
  let ?sorted = "take_rows ?idx ?d1"
  have sv: "sort_values ?d1 (name date_column) = Inr ?sorted"
    by (simp add: sort_values_def c1 bind_err_def)
  have gs: "getitem ?sorted (name date_column) = Inr (c1\<lparr>cells := map (\<lambda>i. cells c1 ! i) ?idx\<rparr>)"
    by (simp add: getitem_take_rows c1)
  from tf have td: "temp_data = setitem ?sorted ''month'' PeriodM
                      (map to_period (cells (c1\<lparr>cells := map (\<lambda>i. cells c1 ! i) ?idx\<rparr>)))"
    by (simp add: temporal_frame_def p sv gs bind_err_def)
  have g1: "getitem ?d1 (name value_column) = Inr value_column"
    using ne(1) by (simp add: getitem_setitem_other getitem_member [OF vc distinct])
  let ?v = "value_column\<lparr>cells := map (\<lambda>i. cells value_column ! i) ?idx\<rparr>"
  have gv: "getitem temp_data (name value_column) = Inr ?v"
    using ne(2) by (simp add: td getitem_setitem_other getitem_take_rows g1)
  have "set (cells ?v) \<subseteq> set (cells value_column)"
  proof -
    have "length (cells value_column) = len data" using wf vc by blast
    then have "\<forall>i \<in> set ?idx. i < length (cells value_column)"
      by (simp add: set_sort_order c1 lp)
    then show ?thesis by auto
  qed
  with gv show ?thesis by auto
qed

text \<open>
  Outside the clash of labels, the claim on constant values holds: a value column that is
  constant and is labelled neither like the date column nor \<open>month\<close> nor
  \<open>month_num\<close> yields no seasonality record.
\<close>

theorem no_seasonality_for_constant_values:
  assumes run: "pattern_details to_dt data = Inr p"
    and dcs: "date_cols to_dt data = date_column # other_dates"
    and vcs: "numeric_cols data = value_column # other_values"
    and distinct: "distinct (columns data)"
    and wf: "\<forall>c \<in> set data. length (cells c) = len data"
    and parser: "\<forall>xs r. to_dt xs = Some r \<longrightarrow> length r = length xs"
    and ne: "name value_column \<noteq> name date_column" "name value_column \<noteq> ''month''"
            "name value_column \<noteq> ''month_num''"
    and const: "constant_series (cells value_column)"
  shows "seasonal_patterns p = []"
proof -
  have dc: "date_column \<in> set data"
    using dcs by (metis date_cols_def filter_is_subset list.set_intros(1) subsetD)
  have vc: "value_column \<in> set data"
    using vcs by (metis numeric_cols_def filter_is_subset list.set_intros(1) subsetD)
  from run obtain temp_data where tf: "temporal_frame to_dt data date_column = Inr temp_data"
    by (auto simp: pattern_details_def dcs vcs bind_err_def split: sum.splits)
  from run tf obtain monthly where mo: "monthly_data temp_data (name value_column) = Inr monthly"
    by (auto simp: pattern_details_def dcs vcs bind_err_def split: sum.splits)
  from temporal_frame_value_column [OF tf dc vc distinct wf parser ne(1,2)]
  obtain v where v: "getitem temp_data (name value_column) = Inr v"
    "set (cells v) \<subseteq> set (cells value_column)" by blast
  from const v(2) obtain c where c: "set (num_values (cells v)) \<subseteq> {c}"
    by (rule constant_series_subset)
  show ?thesis
  proof (cases "12 \<le> length monthly")
    case False
    with run show ?thesis
      by (auto simp: pattern_details_def dcs vcs tf mo bind_err_def)
  next
    case True
    with run obtain pattern where
      sp: "seasonal_pattern temp_data (name date_column) (name value_column) = Inr pattern"
      and rec: "seasonal_records (name value_column) pattern = Inr (seasonal_patterns p)"
      by (auto simp: pattern_details_def dcs vcs tf mo bind_err_def split: sum.splits)
    from sp obtain keys where "pattern = group_means keys (cells v)"
      using ne(3)
      by (auto simp: seasonal_pattern_def bind_err_def Let_def getitem_setitem_other v
          split: sum.splits if_splits)
    then have "\<forall>x \<in> set (map snd pattern). x = Fin c \<or> x = NaN"
      using group_means_constant [OF c] by blast
    then have "seasonal_records (name value_column) pattern = Inr []"
      by (rule flat_pattern_no_record)
    with rec show ?thesis by simp
  qed
qed

lemma idxmax_from_greatest:
  "\<exists>a. m \<le> a \<and> (\<forall>k' b. (k', Fin b) \<in> set xs \<longrightarrow> b \<le> a)
       \<and> ((idxmax_from k m xs = k \<and> a = m) \<or> (idxmax_from k m xs, Fin a) \<in> set xs)"
proof (induction k m xs rule: idxmax_from.induct)
  case (1 k m)
  then show ?case by simp
next
  case (2 k m k' a xs)
  show ?case
  proof (cases "m < a")
    case True
    with 2(1) obtain a' where "a \<le> a'" "\<forall>k'' b. (k'', Fin b) \<in> set xs \<longrightarrow> b \<le> a'"
      "(idxmax_from k' a xs = k' \<and> a' = a) \<or> (idxmax_from k' a xs, Fin a') \<in> set xs"
      by blast
    with True show ?thesis
      by (intro exI [of _ a']) auto
  next
    case False
    with 2(2) obtain a' where "m \<le> a'" "\<forall>k'' b. (k'', Fin b) \<in> set xs \<longrightarrow> b \<le> a'"
      "(idxmax_from k m xs = k \<and> a' = m) \<or> (idxmax_from k m xs, Fin a') \<in> set xs"
      by blast
    with False show ?thesis
      by (intro exI [of _ a']) auto
  qed
qed auto

lemma idxmax_greatest:
  assumes "idxmax xs = Some k"
  shows "\<exists>a. (k, Fin a) \<in> set xs \<and> (\<forall>k' b. (k', Fin b) \<in> set xs \<longrightarrow> b \<le> a)"
  using assms
proof (induction xs rule: idxmax.induct)
  case 1
  then show ?case by simp
next
  case (2 k0 a xs)
  from idxmax_from_greatest [of a xs k0] 2 show ?case
    by auto
qed auto

lemma idxmin_from_least:
  "\<exists>a. a \<le> m \<and> (\<forall>k' b. (k', Fin b) \<in> set xs \<longrightarrow> a \<le> b)
       \<and> ((idxmin_from k m xs = k \<and> a = m) \<or> (idxmin_from k m xs, Fin a) \<in> set xs)"
proof (induction k m xs rule: idxmin_from.induct)
  case (1 k m)
  then show ?case by simp
next
  case (2 k m k' a xs)
  show ?case
  proof (cases "a < m")
    case True
    with 2(1) obtain a' where "a' \<le> a" "\<forall>k'' b. (k'', Fin b) \<in> set xs \<longrightarrow> a' \<le> b"
      "(idxmin_from k' a xs = k' \<and> a' = a) \<or> (idxmin_from k' a xs, Fin a') \<in> set xs"
      by blast
    with True show ?thesis
      by (intro exI [of _ a']) auto
  next
    case False
    with 2(2) obtain a' where "a' \<le> m" "\<forall>k'' b. (k'', Fin b) \<in> set xs \<longrightarrow> a' \<le> b"
      "(idxmin_from k m xs = k \<and> a' = m) \<or> (idxmin_from k m xs, Fin a') \<in> set xs"
      by blast
    with False show ?thesis
      by (intro exI [of _ a']) auto
  qed
qed auto

lemma idxmin_least:
  assumes "idxmin xs = Some k"
  shows "\<exists>a. (k, Fin a) \<in> set xs \<and> (\<forall>k' b. (k', Fin b) \<in> set xs \<longrightarrow> a \<le> b)"
  using assms
proof (induction xs rule: idxmin.induct)
  case 1
  then show ?case by simp
next
  case (2 k0 a xs)
  from idxmin_from_least [of a xs k0] 2 show ?case
    by auto
qed auto

text \<open>
  The rule of the seasonality record on the series that the step computes: a record is
  emitted exactly when the monthly aggregation has at least twelve buckets and the
  deviation of the per-month means divided by their mean is above 0.1; its peak and low
  are the months of the largest and the smallest mean.
\<close>

theorem seasonal_patterns_rule:
  assumes "pattern_details to_dt data = Inr p"
  shows "(seasonal_patterns p \<noteq> []) =
           (\<exists>date_column other_dates value_column other_values temp_data monthly pattern.
              date_cols to_dt data = date_column # other_dates
            \<and> numeric_cols data = value_column # other_values
            \<and> temporal_frame to_dt data date_column = Inr temp_data
            \<and> monthly_data temp_data (name value_column) = Inr monthly
            \<and> 12 \<le> length monthly
            \<and> seasonal_pattern temp_data (name date_column) (name value_column) = Inr pattern
            \<and> np_less (Fin (1 / 10)) (seasonal_strength pattern))"
proof (cases "date_cols to_dt data")
  case Nil
  with assms show ?thesis by (auto simp: pattern_details_def no_patterns_def)
next
  case dcs: (Cons date_column other_dates)
  show ?thesis
  proof (cases "numeric_cols data")
    case Nil
    with assms dcs show ?thesis by (auto simp: pattern_details_def no_patterns_def)
  next
    case vcs: (Cons value_column other_values)
    from assms obtain temp_data where tf: "temporal_frame to_dt data date_column = Inr temp_data"
      by (auto simp: pattern_details_def dcs vcs bind_err_def split: sum.splits)
    from assms tf obtain monthly where mo: "monthly_data temp_data (name value_column) = Inr monthly"
      by (auto simp: pattern_details_def dcs vcs bind_err_def split: sum.splits)
    show ?thesis
    proof (cases "12 \<le> length monthly")
      case False
      with assms show ?thesis
        by (auto simp: pattern_details_def dcs vcs tf mo bind_err_def)
    next
      case True
      with assms obtain pattern where
        sp: "seasonal_pattern temp_data (name date_column) (name value_column) = Inr pattern"
        and rec: "seasonal_records (name value_column) pattern = Inr (seasonal_patterns p)"
        by (auto simp: pattern_details_def dcs vcs tf mo bind_err_def split: sum.splits)
      from seasonal_records_rule(1) [OF rec] True show ?thesis
        by (simp add: dcs vcs tf mo sp)
    qed
  qed
qed

subsection \<open>Time-series preparation\<close>

lemma complete_rows_of_no_null:
  "set (complete_rows_of ts xs) \<subseteq> {(t, x). Some t \<in> set ts \<and> Some x \<in> set xs}"
  by (induction ts xs rule: complete_rows_of.induct) auto

text \<open>
  C10: the function returns \<open>None\<close> or a frame of exactly two columns, labelled
  \<open>date\<close> and \<open>value\<close>, that hold a timestamp and a number in every row (no missing
  value), the dates in non-decreasing order; and it returns \<open>None\<close> when the frame is
  empty, when no date column or no numeric column is detected, and when no row survives
  the coercion.
\<close>

theorem prepare_time_series_data_result:
  "(prepare_time_series_data lib data = None
      \<or> (\<exists>rs. prepare_time_series_data lib data = Some (time_series_frame rs)
            \<and> columns (time_series_frame rs) = [''date'', ''value'']
            \<and> null_cells (time_series_frame rs) = 0
            \<and> sorted (map fst rs) \<and> rs \<noteq> []))
   \<and> (empty data \<longrightarrow> prepare_time_series_data lib data = None)
   \<and> (date_columns lib data = [] \<longrightarrow> prepare_time_series_data lib data = None)
   \<and> (numeric_columns lib data = [] \<longrightarrow> prepare_time_series_data lib data = None)
   \<and> (coerced_rows lib data = [] \<longrightarrow> prepare_time_series_data lib data = None)"
proof -
  have shape: "columns (time_series_frame rs) = [''date'', ''value'']
               \<and> null_cells (time_series_frame rs) = 0" for rs
    by (simp add: time_series_frame_def columns_def null_cells_def null_count_def isnull_def
        filter_map comp_def)
  have a: "prepare_time_series_data lib data = None
      \<or> (\<exists>rs. prepare_time_series_data lib data = Some (time_series_frame rs)
            \<and> columns (time_series_frame rs) = [''date'', ''value'']
            \<and> null_cells (time_series_frame rs) = 0
            \<and> sorted (map fst rs) \<and> rs \<noteq> [])"
  proof (cases "prepare_time_series_data lib data")
    case None
    then show ?thesis by simp
  next
    case (Some ts)
    then obtain rows where r: "ts = time_series_frame (sort_key fst rows)" "rows \<noteq> []"
      by (auto simp: prepare_time_series_data_def Let_def
          split: if_splits list.splits option.splits)
    have "sorted (map fst (sort_key fst rows))" by simp
    moreover have "sort_key fst rows \<noteq> []"
      using r(2) by (metis length_sort length_0_conv)
    ultimately show ?thesis
      using Some r(1) shape by blast
  qed
  have b: "empty data \<longrightarrow> prepare_time_series_data lib data = None"
    by (simp add: prepare_time_series_data_def)
  have c: "date_columns lib data = [] \<longrightarrow> prepare_time_series_data lib data = None"
    by (simp add: prepare_time_series_data_def)
  have d: "numeric_columns lib data = [] \<longrightarrow> prepare_time_series_data lib data = None"
    by (simp add: prepare_time_series_data_def split: list.splits)
  have e: "coerced_rows lib data = [] \<longrightarrow> prepare_time_series_data lib data = None"
    by (auto simp: prepare_time_series_data_def coerced_rows_def Let_def
        split: list.splits option.splits)
  from a b c d e show ?thesis by blast
qed

lemma visits_frame:
  "prepare_time_series_data example_parsers ex_visits
     = Some (time_series_frame [((2024, 1, 0), 9), ((2024, 3, 0), 5)])"
proof -
  have e: "\<not> empty ex_visits"
    by (simp add: empty_def ex_visits_def len_def visits_def)
  have d: "date_columns example_parsers ex_visits = [visit_date]"
    by (simp add: date_columns_def named_date_columns_def ex_visits_def has_date_word_def
        lower_def lower_char_def test_data_def isnull_def example_parsers_def to_datetime_ts_def
        visit_date_def visits_def)
  have n: "numeric_columns example_parsers ex_visits = [visits]"
    by (simp add: numeric_columns_def ex_visits_def test_data_def isnull_def example_parsers_def
        visit_date_def visits_def)
  have c: "convert_dates example_parsers (cells visit_date)
           = Some [Some (2024, 3, 0), Some (2024, 1, 0), None, Some (2024, 2, 0)]"
    by (simp add: convert_dates_def example_parsers_def to_datetime_ts_def visit_date_def)
  have v: "to_numeric_coerce example_parsers (cells visits) = [Some 5, Some 9, Some 4, None]"
    by (simp add: example_parsers_def visits_def)
  have nm: "name visit_date \<noteq> name visits"
    by (simp add: visit_date_def visits_def)
  show ?thesis
    by (simp add: prepare_time_series_data_def e d n c v nm)
qed

theorem prepare_time_series_data_result_witness:
  "prepare_time_series_data example_parsers ex_visits
     = Some (time_series_frame [((2024, 1, 0), 9), ((2024, 3, 0), 5)])
   \<and> columns (time_series_frame [((2024, 1, 0), 9), ((2024, 3, 0), 5)]) = [''date'', ''value'']
   \<and> date_columns example_parsers ex_labels = []
   \<and> prepare_time_series_data example_parsers ex_labels = None"
proof -
  have d: "date_columns example_parsers ex_labels = []"
    by (simp add: date_columns_def named_date_columns_def ex_labels_def has_date_word_def
        lower_def lower_char_def)
  from prepare_time_series_data_result [of example_parsers ex_visits]
       prepare_time_series_data_result [of example_parsers ex_labels] d visits_frame
  show ?thesis by (simp add: time_series_frame_def columns_def)
qed

end
